theory Spec2Isabelle
  imports Complex_Main "HOL-Library.Word" "HOL-Library.Sublist"
begin

section \<open>JavaScript strings and values\<close>

text \<open>
  The module under verification is the AI service of the MBTI chat application
  (\<^verbatim>\<open>src/services/aiService.js\<close>) together with its configuration
  (\<^verbatim>\<open>src/config/config.js\<close>): the analysis trigger, the parser of analysis
  results with its fallbacks, the analysis step and the interface of the module. The
  texts of the prompts and the construction of the chat model are left out; the state
  records whether a model is present.

  A JavaScript string is a sequence of UTF-16 code units, so it is modelled as a list of
  16-bit words. \<^verbatim>\<open>includes\<close>, \<^verbatim>\<open>split\<close>, \<^verbatim>\<open>match\<close> and \<^verbatim>\<open>join\<close> work on code
  units, and so do the models below. String literals of the source that are plain ASCII
  are written \<open>js ''...''\<close>; the Chinese literals are written as their code units.
\<close>

type_synonym jsstring = "16 word list"

definition js :: "string \<Rightarrow> jsstring" where
  "js s = map of_char s"

text \<open>\<^verbatim>\<open>s.includes(k)\<close>: some position of \<open>s\<close> starts an occurrence of \<open>k\<close>.\<close>

fun str_includes :: "jsstring \<Rightarrow> jsstring \<Rightarrow> bool" where
  "str_includes [] k = (k = [])"
| "str_includes (c # cs) k = (prefix k (c # cs) \<or> str_includes cs k)"

text \<open>\<^verbatim>\<open>xs.some(f)\<close>: stops at the first element that satisfies \<open>f\<close>.\<close>

primrec array_some :: "('a \<Rightarrow> bool) \<Rightarrow> 'a list \<Rightarrow> bool" where
  "array_some f [] = False"
| "array_some f (x # xs) = (if f x then True else array_some f xs)"

text \<open>\<^verbatim>\<open>xs.join(sep)\<close> on an array of strings.\<close>

fun array_join :: "jsstring \<Rightarrow> jsstring list \<Rightarrow> jsstring" where
  "array_join sep [] = []"
| "array_join sep [x] = x"
| "array_join sep (x # y # ys) = x @ sep @ array_join sep (y # ys)"

text \<open>
  Values: what \<^verbatim>\<open>JSON.parse\<close> returns and what the object literals of the module build.
  An object is the list of its own properties in insertion order, each name once. A
  finite number is given by a rational: \<open>JNumber 0.75\<close> is the number that the
  literal \<^verbatim>\<open>0.75\<close> denotes. The module performs no arithmetic on numbers and
  compares none; it only tests whether a decoded value is truthy. \<open>JNonFinite\<close>
  stands for the infinities and NaN, with the flag telling whether the value is NaN.
\<close>

datatype jsval =
    JUndefined
  | JNull
  | JBool bool
  | JNumber rat
  | JNonFinite bool
  | JString jsstring
  | JArray "jsval list"
  | JObject "(jsstring \<times> jsval) list"

text \<open>\<^verbatim>\<open>ToBoolean\<close>, as applied by \<^verbatim>\<open>if\<close>, \<^verbatim>\<open>&&\<close> and \<^verbatim>\<open>||\<close>.\<close>

fun truthy :: "jsval \<Rightarrow> bool" where
  "truthy JUndefined = False"
| "truthy JNull = False"
| "truthy (JBool b) = b"
| "truthy (JNumber r) = (r \<noteq> 0)"
| "truthy (JNonFinite is_nan) = (\<not> is_nan)"
| "truthy (JString s) = (s \<noteq> [])"
| "truthy (JArray xs) = True"
| "truthy (JObject kvs) = True"

datatype error =
    ModelNotInitialized
  | GatewayError jsstring
  | AIRequestFailed error
  | SyntaxError
  | TypeError
  | AnalysisUnparsable

text \<open>
  \<^verbatim>\<open>v.name\<close> for the property names the module reads from an analysis result
  (\<^verbatim>\<open>mbtiType\<close>, \<^verbatim>\<open>dimensions\<close>, \<^verbatim>\<open>description\<close>, \<^verbatim>\<open>type\<close>, ...), none of which
  is defined by a built-in prototype: reading a property of \<^verbatim>\<open>null\<close> or
  \<^verbatim>\<open>undefined\<close> throws a TypeError, an object yields its own property or
  \<^verbatim>\<open>undefined\<close>, every other value yields \<^verbatim>\<open>undefined\<close>.
\<close>

fun get_property :: "jsval \<Rightarrow> jsstring \<Rightarrow> error + jsval" where
  "get_property JUndefined name = Inl TypeError"
| "get_property JNull name = Inl TypeError"
| "get_property (JObject kvs) name =
     (case map_of kvs name of None \<Rightarrow> Inr JUndefined | Some v \<Rightarrow> Inr v)"
| "get_property v name = Inr JUndefined"

section \<open>Messages, the platform and the configuration\<close>

datatype chat_message = HumanMessage jsstring | AIMessage jsstring

text \<open>\<^verbatim>\<open>msg.content\<close>\<close>

fun message_content :: "chat_message \<Rightarrow> jsstring" where
  "message_content (HumanMessage text) = text"
| "message_content (AIMessage text) = text"

text \<open>
  A call of the chat model. The prompts are fixed templates filled with the question
  counter (through the progress hint of \<^verbatim>\<open>getSystemPrompt\<close>) and the conversation
  history, so a request is represented by the data its prompt is built from.
\<close>

datatype request =
    ChatRequest nat "chat_message list"
  | WelcomeRequest nat
  | AnalysisRequest "chat_message list"

text \<open>
  What the module takes from outside: \<^verbatim>\<open>String.prototype.toLowerCase\<close> and
  \<^verbatim>\<open>JSON.parse\<close> of the JavaScript platform (\<open>None\<close>: a SyntaxError is thrown), and
  \<^verbatim>\<open>chatModel.value.invoke\<close>, the gateway to the language model (\<open>Inl\<close>: the call
  throws; \<open>Inr\<close>: the \<^verbatim>\<open>content\<close> of the response). The module is verified for every
  such platform.
\<close>

record platform =
  toLowerCase :: "jsstring \<Rightarrow> jsstring"
  JSON_parse :: "jsstring \<Rightarrow> jsval option"
  invoke :: "request \<Rightarrow> error + jsstring"

text \<open>
  \<^verbatim>\<open>AI_CONFIG\<close> of \<^verbatim>\<open>config.js\<close>, the two options the analysis trigger reads. The
  keywords are, in order: fenxi (analysis), zongjie (summary), jielun (conclusion),
  xingge leixing (personality type), MBTI, panduan (judgement), pinggu (assessment),
  kanqilai (it looks like), genju (according to), zonghe (overall).
\<close>

record config =
  minQuestionsBeforeAnalysis :: nat
  analysisKeywords :: "jsstring list"

definition AI_CONFIG :: config where
  "AI_CONFIG = \<lparr>
     minQuestionsBeforeAnalysis = 4,
     analysisKeywords =
       [[0x5206, 0x6790],
        [0x603B, 0x7ED3],
        [0x7ED3, 0x8BBA],
        [0x6027, 0x683C, 0x7C7B, 0x578B],
        js ''MBTI'',
        [0x5224, 0x65AD],
        [0x8BC4, 0x4F30],
        [0x770B, 0x8D77, 0x6765],
        [0x6839, 0x636E],
        [0x7EFC, 0x5408]] \<rparr>"

section \<open>The session state\<close>

record user_info =
  mbtiType :: jsval
  traits :: "(jsstring \<times> jsval) list"
  questionsAsked :: nat
  collectedData :: "(jsstring \<times> jsval) list"

text \<open>
  The module-level reactive state. \<open>chatModel\<close> tells whether \<^verbatim>\<open>chatModel.value\<close>
  holds a model object rather than \<^verbatim>\<open>null\<close>.
\<close>

record state =
  chatModel :: bool
  conversationHistory :: "chat_message list"
  isAnalyzing :: bool
  isInitialized :: bool
  userInfo :: user_info

definition isModelReady :: "state \<Rightarrow> bool" where
  "isModelReady s = (isInitialized s \<and> chatModel s)"

section \<open>The analysis trigger\<close>

text \<open>
  The keyword table of \<^verbatim>\<open>hasCollectedEnoughDimensionInfo\<close>, in the order of
  \<^verbatim>\<open>Object.entries\<close>. EI: party, socialising, being alone, exchange, friend, crowd,
  quiet, lively. SN: detail, intuition, possibility, future, reality, abstract, concrete,
  imagination. TF: decide, feeling, logic, emotion, rational, values, fair, harmony.
  JP: plan, flexible, regular, casual, deadline, free, structure, change.
\<close>

definition dimensionKeywords :: "(jsstring \<times> jsstring list) list" where
  "dimensionKeywords =
     [(js ''EI'',
       [[0x805A, 0x4F1A], [0x793E, 0x4EA4], [0x72EC, 0x5904], [0x4EA4, 0x6D41],
        [0x670B, 0x53CB], [0x4EBA, 0x7FA4], [0x5B89, 0x9759], [0x70ED, 0x95F9]]),
      (js ''SN'',
       [[0x7EC6, 0x8282], [0x76F4, 0x89C9], [0x53EF, 0x80FD, 0x6027], [0x672A, 0x6765],
        [0x73B0, 0x5B9E], [0x62BD, 0x8C61], [0x5177, 0x4F53], [0x60F3, 0x8C61]]),
      (js ''TF'',
       [[0x51B3, 0x5B9A], [0x611F, 0x53D7], [0x903B, 0x8F91], [0x60C5, 0x611F],
        [0x7406, 0x6027], [0x4EF7, 0x503C, 0x89C2], [0x516C, 0x5E73], [0x548C, 0x8C10]]),
      (js ''JP'',
       [[0x8BA1, 0x5212], [0x7075, 0x6D3B], [0x89C4, 0x5F8B], [0x968F, 0x6027],
        [0x622A, 0x6B62, 0x65E5, 0x671F], [0x81EA, 0x7531], [0x7ED3, 0x6784],
        [0x53D8, 0x5316]])]"

text \<open>\<^verbatim>\<open>conversationHistory.map(msg => msg.content).join(' ').toLowerCase()\<close>\<close>

definition conversationText :: "platform \<Rightarrow> state \<Rightarrow> jsstring" where
  "conversationText p s =
     toLowerCase p (array_join (js '' '') (map message_content (conversationHistory s)))"

text \<open>The \<^verbatim>\<open>for\<close> loop over the table, with the counter \<^verbatim>\<open>coveredDimensions\<close>.\<close>

fun coveredDimensions :: "jsstring \<Rightarrow> (jsstring \<times> jsstring list) list \<Rightarrow> nat \<Rightarrow> nat" where
  "coveredDimensions text [] n = n"
| "coveredDimensions text ((dimension, keywords) # rest) n =
     (let hasDimensionInfo = array_some (\<lambda>keyword. str_includes text keyword) keywords
      in coveredDimensions text rest (if hasDimensionInfo then n + 1 else n))"

definition hasCollectedEnoughDimensionInfo :: "platform \<Rightarrow> state \<Rightarrow> bool" where
  "hasCollectedEnoughDimensionInfo p s =
     (3 \<le> coveredDimensions (conversationText p s) dimensionKeywords 0)"

definition shouldAnalyze :: "platform \<Rightarrow> state \<Rightarrow> jsstring \<Rightarrow> bool" where
  "shouldAnalyze p s aiResponse =
     (let hasEnoughQuestions =
            (minQuestionsBeforeAnalysis AI_CONFIG \<le> questionsAsked (userInfo s));
          hasAnalysisIntent =
            array_some (\<lambda>keyword. str_includes aiResponse keyword) (analysisKeywords AI_CONFIG);
          hasEnoughInfo = hasCollectedEnoughDimensionInfo p s
      in hasEnoughQuestions \<and> (hasAnalysisIntent \<or> hasEnoughInfo))"

text \<open>
  The heuristic in the words of the specification: an axis is covered when one of its
  keywords occurs in the text, and the heuristic reports the covered axes.
\<close>

definition axis_covered :: "jsstring \<Rightarrow> jsstring list \<Rightarrow> bool" where
  "axis_covered text keywords = (\<exists>keyword \<in> set keywords. sublist keyword text)"

definition covered_axes :: "jsstring \<Rightarrow> jsstring set" where
  "covered_axes text =
     fst ` {entry \<in> set dimensionKeywords. axis_covered text (snd entry)}"

section \<open>The result parser\<close>

subsection \<open>The patterns and \<^verbatim>\<open>split\<close>\<close>

text \<open>
  \<^verbatim>\<open>content.match(/\{[\s\S]*\}/)\<close>: the match starts at the first brace brace and,
  the star being greedy, ends at the last closing brace after it; there is no match
  when no closing brace follows the first brace brace. The result is the matched
  text (\<^verbatim>\<open>jsonMatch[0]\<close>), \<open>None\<close> for \<^verbatim>\<open>null\<close>.
\<close>

definition match_braces :: "jsstring \<Rightarrow> jsstring option" where
  "match_braces content =
     (case dropWhile (\<lambda>c. c \<noteq> 0x7B) content of
        [] \<Rightarrow> None
      | brace # rest \<Rightarrow>
          if 0x7D \<in> set rest
          then Some (brace # rev (dropWhile (\<lambda>c. c \<noteq> 0x7D) (rev rest)))
          else None)"

text \<open>\<^verbatim>\<open>line.match(/[A-Z]{4}/)\<close>: the leftmost four consecutive capital ASCII letters.\<close>

definition is_upper :: "16 word \<Rightarrow> bool" where
  "is_upper c = (0x41 \<le> c \<and> c \<le> 0x5A)"

fun match_upper4 :: "jsstring \<Rightarrow> jsstring option" where
  "match_upper4 (a # b # c # d # rest) =
     (if is_upper a \<and> is_upper b \<and> is_upper c \<and> is_upper d then Some [a, b, c, d]
      else match_upper4 (b # c # d # rest))"
| "match_upper4 line = None"

text \<open>\<^verbatim>\<open>s.split(sep)\<close> for a separator of one code unit.\<close>

fun str_split :: "16 word \<Rightarrow> jsstring \<Rightarrow> jsstring list" where
  "str_split sep [] = [[]]"
| "str_split sep (c # cs) =
     (if c = sep then [] # str_split sep cs
      else (case str_split sep cs of
              [] \<Rightarrow> [[c]]
            | piece # pieces \<Rightarrow> (c # piece) # pieces))"

subsection \<open>Synthesis from a recovered type (\<^verbatim>\<open>generateBasicAnalysis\<close>)\<close>

text \<open>
  \<^verbatim>\<open>mbtiType.split('')[i]\<close>: the code unit at \<open>i\<close> as a string of length one,
  \<^verbatim>\<open>undefined\<close> beyond the end of the string.
\<close>

definition chars_at :: "jsstring \<Rightarrow> nat \<Rightarrow> jsval" where
  "chars_at mbti i = (if i < length mbti then JString [mbti ! i] else JUndefined)"

text \<open>
  The pieces of the four reason templates: the text before the pole's name, the name
  used when the letter is the first pole of the axis (E: waixiang, extraverted; S:
  ganjue, sensing; T: lixing sikao, rational thinking; J: youxu guihua, orderly
  planning), the name used otherwise (neixiang, introverted; zhijue, intuition; qinggan
  kaolv, emotional consideration; linghuo shiying, flexible adaptation) and the text
  after it.
\<close>

definition reason_EI_prefix :: "jsstring" where
  "reason_EI_prefix =
     [0x57FA, 0x4E8E, 0x5BF9, 0x8BDD, 0x5206, 0x6790, 0xFF0C, 0x7528, 0x6237, 0x8868,
      0x73B0, 0x51FA]"

definition reason_EI_first :: "jsstring" where
  "reason_EI_first =
     [0x5916, 0x5411]"

definition reason_EI_second :: "jsstring" where
  "reason_EI_second =
     [0x5185, 0x5411]"

definition reason_EI_suffix :: "jsstring" where
  "reason_EI_suffix =
     [0x7684, 0x7279, 0x5F81]"

definition reason_SN_prefix :: "jsstring" where
  "reason_SN_prefix =
     [0x7528, 0x6237, 0x5728, 0x4FE1, 0x606F, 0x5904, 0x7406, 0x4E0A, 0x504F, 0x5411]"

definition reason_SN_first :: "jsstring" where
  "reason_SN_first =
     [0x611F, 0x89C9]"

definition reason_SN_second :: "jsstring" where
  "reason_SN_second =
     [0x76F4, 0x89C9]"

definition reason_SN_suffix :: "jsstring" where
  "reason_SN_suffix =
     [0x578B]"

definition reason_TF_prefix :: "jsstring" where
  "reason_TF_prefix =
     [0x51B3, 0x7B56, 0x98CE, 0x683C, 0x503E, 0x5411, 0x4E8E]"

definition reason_TF_first :: "jsstring" where
  "reason_TF_first =
     [0x7406, 0x6027, 0x601D, 0x8003]"

definition reason_TF_second :: "jsstring" where
  "reason_TF_second =
     [0x60C5, 0x611F, 0x8003, 0x8651]"

definition reason_JP_prefix :: "jsstring" where
  "reason_JP_prefix =
     [0x751F, 0x6D3B, 0x65B9, 0x5F0F, 0x66F4, 0x504F, 0x5411]"

definition reason_JP_first :: "jsstring" where
  "reason_JP_first =
     [0x6709, 0x5E8F, 0x89C4, 0x5212]"

definition reason_JP_second :: "jsstring" where
  "reason_JP_second =
     [0x7075, 0x6D3B, 0x9002, 0x5E94]"

definition generateDimensionsAnalysis :: "jsstring \<Rightarrow> jsval" where
  "generateDimensionsAnalysis mbti =
     JObject
      [(js ''EI'', JObject
         [(js ''type'', chars_at mbti 0),
          (js ''confidence'', JNumber 0.75),
          (js ''reason'', JString (reason_EI_prefix @
             (if chars_at mbti 0 = JString (js ''E'') then reason_EI_first
              else reason_EI_second) @ reason_EI_suffix))]),
       (js ''SN'', JObject
         [(js ''type'', chars_at mbti 1),
          (js ''confidence'', JNumber 0.75),
          (js ''reason'', JString (reason_SN_prefix @
             (if chars_at mbti 1 = JString (js ''S'') then reason_SN_first
              else reason_SN_second) @ reason_SN_suffix))]),
       (js ''TF'', JObject
         [(js ''type'', chars_at mbti 2),
          (js ''confidence'', JNumber 0.75),
          (js ''reason'', JString (reason_TF_prefix @
             (if chars_at mbti 2 = JString (js ''T'') then reason_TF_first
              else reason_TF_second)))]),
       (js ''JP'', JObject
         [(js ''type'', chars_at mbti 3),
          (js ''confidence'', JNumber 0.75),
          (js ''reason'', JString (reason_JP_prefix @
             (if chars_at mbti 3 = JString (js ''J'') then reason_JP_first
              else reason_JP_second)))])]"

text \<open>The table \<^verbatim>\<open>typeDescriptions\<close> and its two entries.\<close>

record type_info =
  description :: jsstring
  strengths :: "jsstring list"
  developmentAreas :: "jsstring list"
  careerSuggestions :: "jsstring list"

definition ENFP_description :: "jsstring" where
  "ENFP_description =
     [0x0045, 0x004E, 0x0046, 0x0050, 0xFF08, 0x5021, 0x5BFC, 0x8005, 0xFF09, 0x662F,
      0x5145, 0x6EE1, 0x70ED, 0x60C5, 0x548C, 0x521B, 0x9020, 0x529B, 0x7684, 0x7406,
      0x60F3, 0x4E3B, 0x4E49, 0x8005, 0xFF0C, 0x5584, 0x4E8E, 0x6FC0, 0x52B1, 0x4ED6,
      0x4EBA, 0x5E76, 0x53D1, 0x73B0, 0x65B0, 0x7684, 0x53EF, 0x80FD, 0x6027, 0x3002]"

definition ENFP_strengths :: "jsstring list" where
  "ENFP_strengths =
     [[0x5BCC, 0x6709, 0x521B, 0x9020, 0x529B],
      [0x5584, 0x4E8E, 0x6FC0, 0x52B1, 0x4ED6, 0x4EBA],
      [0x9002, 0x5E94, 0x6027, 0x5F3A],
      [0x5145, 0x6EE1, 0x70ED, 0x60C5]]"

definition ENFP_developmentAreas :: "jsstring list" where
  "ENFP_developmentAreas =
     [[0x63D0, 0x9AD8, 0x4E13, 0x6CE8, 0x529B],
      [0x52A0, 0x5F3A, 0x7EC6, 0x8282, 0x7BA1, 0x7406],
      [0x5B66, 0x4F1A, 0x5904, 0x7406, 0x6279, 0x8BC4]]"

definition ENFP_careerSuggestions :: "jsstring list" where
  "ENFP_careerSuggestions =
     [[0x521B, 0x610F, 0x8BBE, 0x8BA1],
      [0x6559, 0x80B2, 0x57F9, 0x8BAD],
      [0x4EBA, 0x529B, 0x8D44, 0x6E90],
      [0x5A92, 0x4F53, 0x4F20, 0x64AD]]"

definition INTJ_description :: "jsstring" where
  "INTJ_description =
     [0x0049, 0x004E, 0x0054, 0x004A, 0xFF08, 0x5EFA, 0x7B51, 0x5E08, 0xFF09, 0x662F,
      0x72EC, 0x7ACB, 0x7684, 0x601D, 0x60F3, 0x5BB6, 0xFF0C, 0x5177, 0x6709, 0x5F3A,
      0x70C8, 0x7684, 0x76F4, 0x89C9, 0x548C, 0x6218, 0x7565, 0x601D, 0x7EF4, 0x80FD,
      0x529B, 0x3002]"

definition INTJ_strengths :: "jsstring list" where
  "INTJ_strengths =
     [[0x6218, 0x7565, 0x601D, 0x7EF4],
      [0x72EC, 0x7ACB, 0x5DE5, 0x4F5C],
      [0x7CFB, 0x7EDF, 0x6027, 0x601D, 0x8003],
      [0x76EE, 0x6807, 0x5BFC, 0x5411]]"

definition INTJ_developmentAreas :: "jsstring list" where
  "INTJ_developmentAreas =
     [[0x6539, 0x5584, 0x4EBA, 0x9645, 0x4EA4, 0x5F80],
      [0x589E, 0x5F3A, 0x7075, 0x6D3B, 0x6027],
      [0x5B66, 0x4F1A, 0x56E2, 0x961F, 0x5408, 0x4F5C]]"

definition INTJ_careerSuggestions :: "jsstring list" where
  "INTJ_careerSuggestions =
     [[0x7CFB, 0x7EDF, 0x5206, 0x6790],
      [0x7814, 0x7A76, 0x5F00, 0x53D1],
      [0x6218, 0x7565, 0x89C4, 0x5212],
      [0x6280, 0x672F, 0x7BA1, 0x7406]]"

definition typeDescriptions_ENFP :: type_info where
  "typeDescriptions_ENFP =
     \<lparr>description = ENFP_description, strengths = ENFP_strengths,
      developmentAreas = ENFP_developmentAreas,
      careerSuggestions = ENFP_careerSuggestions\<rparr>"

definition typeDescriptions_INTJ :: type_info where
  "typeDescriptions_INTJ =
     \<lparr>description = INTJ_description, strengths = INTJ_strengths,
      developmentAreas = INTJ_developmentAreas,
      careerSuggestions = INTJ_careerSuggestions\<rparr>"

definition typeDescriptions :: "(jsstring \<times> type_info) list" where
  "typeDescriptions =
     [(js ''ENFP'', typeDescriptions_ENFP), (js ''INTJ'', typeDescriptions_INTJ)]"

text \<open>
  \<^verbatim>\<open>typeDescriptions[mbtiType] || typeDescriptions['ENFP']\<close>, the second operand
  being the table's first entry. The lookup is that of the table's own keys; it is the
  lookup of the source for every name that \<^verbatim>\<open>Object.prototype\<close> does not define,
  so for every string of four code units.
\<close>

definition typeInfo :: "jsstring \<Rightarrow> type_info" where
  "typeInfo mbti =
     (case map_of typeDescriptions mbti of
        Some entry \<Rightarrow> entry
      | None \<Rightarrow> typeDescriptions_ENFP)"

definition string_array :: "jsstring list \<Rightarrow> jsval" where
  "string_array xs = JArray (map JString xs)"

definition generateBasicAnalysis :: "jsstring \<Rightarrow> jsval" where
  "generateBasicAnalysis mbti =
     JObject
      [(js ''mbtiType'', JString mbti),
       (js ''confidence'', JNumber 0.7),
       (js ''dimensions'', generateDimensionsAnalysis mbti),
       (js ''description'', JString (description (typeInfo mbti))),
       (js ''strengths'', string_array (strengths (typeInfo mbti))),
       (js ''developmentAreas'', string_array (developmentAreas (typeInfo mbti))),
       (js ''careerSuggestions'', string_array (careerSuggestions (typeInfo mbti)))]"

subsection \<open>The loose line scan (\<^verbatim>\<open>parseAlternativeFormat\<close>)\<close>

text \<open>The word leixing (type) that the scan looks for beside the key name.\<close>

definition word_leixing :: "jsstring" where
  "word_leixing =
     [0x7C7B, 0x578B]"

text \<open>
  The \<^verbatim>\<open>for\<close> loop over the lines: the value of \<^verbatim>\<open>result.mbtiType\<close> when the
  loop ends, the empty string when no line set it.
\<close>

fun scan_lines :: "jsstring list \<Rightarrow> jsstring" where
  "scan_lines [] = []"
| "scan_lines (line # rest) =
     (if str_includes line (js ''mbtiType'') \<or> str_includes line word_leixing
      then (case match_upper4 line of
              Some found \<Rightarrow> found
            | None \<Rightarrow> scan_lines rest)
      else scan_lines rest)"

text \<open>Nothing in the \<^verbatim>\<open>try\<close> block throws on a string, so the handler is never entered.\<close>

definition parseAlternativeFormat :: "jsstring \<Rightarrow> jsval" where
  "parseAlternativeFormat content =
     (let mbti = scan_lines (str_split 0x0A content)
      in if mbti \<noteq> [] then generateBasicAnalysis mbti else JNull)"

subsection \<open>The strict tier (\<^verbatim>\<open>parseAnalysisResult\<close>)\<close>

text \<open>
  \<^verbatim>\<open>analysis.mbtiType && analysis.dimensions && analysis.description\<close> as a condition:
  the properties are read in this order, a later one only when the earlier ones are
  truthy.
\<close>

definition has_required_fields :: "jsval \<Rightarrow> error + bool" where
  "has_required_fields decoded =
     (case get_property decoded (js ''mbtiType'') of
        Inl e \<Rightarrow> Inl e
      | Inr t \<Rightarrow>
          if \<not> truthy t then Inr False
          else (case get_property decoded (js ''dimensions'') of
                  Inl e \<Rightarrow> Inl e
                | Inr d \<Rightarrow>
                    if \<not> truthy d then Inr False
                    else (case get_property decoded (js ''description'') of
                            Inl e \<Rightarrow> Inl e
                          | Inr x \<Rightarrow> Inr (truthy x))))"

text \<open>The body of the \<^verbatim>\<open>try\<close> block; \<open>Inl\<close> is an exception thrown inside it.\<close>

definition parseAnalysisResult_try :: "platform \<Rightarrow> jsstring \<Rightarrow> error + jsval" where
  "parseAnalysisResult_try p content =
     (case match_braces content of
        None \<Rightarrow> Inr (parseAlternativeFormat content)
      | Some jsonMatch \<Rightarrow>
          (case JSON_parse p jsonMatch of
             None \<Rightarrow> Inl SyntaxError
           | Some decoded \<Rightarrow>
               (case has_required_fields decoded of
                  Inl e \<Rightarrow> Inl e
                | Inr True \<Rightarrow> Inr decoded
                | Inr False \<Rightarrow> Inr (parseAlternativeFormat content))))"

text \<open>The \<^verbatim>\<open>catch\<close> block returns \<^verbatim>\<open>null\<close> for every exception.\<close>

definition parseAnalysisResult :: "platform \<Rightarrow> jsstring \<Rightarrow> jsval" where
  "parseAnalysisResult p content =
     (case parseAnalysisResult_try p content of
        Inl e \<Rightarrow> JNull
      | Inr decoded \<Rightarrow> decoded)"

subsection \<open>The default result (\<^verbatim>\<open>generateFallbackAnalysis\<close>)\<close>

definition fallback_reason_EI :: "jsstring" where
  "fallback_reason_EI =
     [0x57FA, 0x4E8E, 0x6709, 0x9650, 0x7684, 0x5BF9, 0x8BDD, 0x4FE1, 0x606F, 0x63A8,
      0x6D4B, 0x7528, 0x6237, 0x504F, 0x5411, 0x5916, 0x5411]"

definition fallback_reason_SN :: "jsstring" where
  "fallback_reason_SN =
     [0x7528, 0x6237, 0x8868, 0x73B0, 0x51FA, 0x4E00, 0x5B9A, 0x7684, 0x76F4, 0x89C9,
      0x578B, 0x7279, 0x5F81]"

definition fallback_reason_TF :: "jsstring" where
  "fallback_reason_TF =
     [0x51B3, 0x7B56, 0x65F6, 0x4F3C, 0x4E4E, 0x66F4, 0x91CD, 0x89C6, 0x4EBA, 0x9645,
      0x5173, 0x7CFB, 0x548C, 0x60C5, 0x611F, 0x56E0, 0x7D20]"

definition fallback_reason_JP :: "jsstring" where
  "fallback_reason_JP =
     [0x8868, 0x73B0, 0x51FA, 0x8F83, 0x5F3A, 0x7684, 0x7075, 0x6D3B, 0x6027, 0x548C,
      0x5F00, 0x653E, 0x6027]"

definition fallback_description :: "jsstring" where
  "fallback_description =
     [0x57FA, 0x4E8E, 0x6709, 0x9650, 0x7684, 0x5BF9, 0x8BDD, 0x4FE1, 0x606F, 0xFF0C,
      0x521D, 0x6B65, 0x5206, 0x6790, 0x663E, 0x793A, 0x7528, 0x6237, 0x53EF, 0x80FD,
      0x5C5E, 0x4E8E, 0x0045, 0x004E, 0x0046, 0x0050, 0x7C7B, 0x578B, 0x3002, 0x5EFA,
      0x8BAE, 0x8FDB, 0x884C, 0x66F4, 0x6DF1, 0x5165, 0x7684, 0x5BF9, 0x8BDD, 0x4EE5,
      0x83B7, 0x5F97, 0x66F4, 0x51C6, 0x786E, 0x7684, 0x5206, 0x6790, 0x7ED3, 0x679C,
      0x3002]"

definition fallback_strengths :: "jsstring list" where
  "fallback_strengths =
     [[0x5584, 0x4E8E, 0x4EA4, 0x6D41],
      [0x5BCC, 0x6709, 0x521B, 0x610F],
      [0x9002, 0x5E94, 0x6027, 0x5F3A],
      [0x5173, 0x5FC3, 0x4ED6, 0x4EBA]]"

definition fallback_developmentAreas :: "jsstring list" where
  "fallback_developmentAreas =
     [[0x9700, 0x8981, 0x66F4, 0x591A, 0x4FE1, 0x606F, 0x6765, 0x51C6, 0x786E, 0x8BC4,
       0x4F30, 0x53D1, 0x5C55, 0x9886, 0x57DF]]"

definition fallback_careerSuggestions :: "jsstring list" where
  "fallback_careerSuggestions =
     [[0x5EFA, 0x8BAE, 0x8FDB, 0x884C, 0x66F4, 0x8BE6, 0x7EC6, 0x7684, 0x5BF9, 0x8BDD,
       0x4EE5, 0x63D0, 0x4F9B, 0x51C6, 0x786E, 0x7684, 0x804C, 0x4E1A, 0x5EFA, 0x8BAE]]"

definition generateFallbackAnalysis :: jsval where
  "generateFallbackAnalysis =
     JObject
      [(js ''mbtiType'', JString (js ''ENFP'')),
       (js ''confidence'', JNumber 0.6),
       (js ''dimensions'', JObject
          [(js ''EI'', JObject [(js ''type'', JString (js ''E'')),
              (js ''confidence'', JNumber 0.6), (js ''reason'', JString fallback_reason_EI)]),
           (js ''SN'', JObject [(js ''type'', JString (js ''N'')),
              (js ''confidence'', JNumber 0.6), (js ''reason'', JString fallback_reason_SN)]),
           (js ''TF'', JObject [(js ''type'', JString (js ''F'')),
              (js ''confidence'', JNumber 0.6), (js ''reason'', JString fallback_reason_TF)]),
           (js ''JP'', JObject [(js ''type'', JString (js ''P'')),
              (js ''confidence'', JNumber 0.6), (js ''reason'', JString fallback_reason_JP)])]),
       (js ''description'', JString fallback_description),
       (js ''strengths'', string_array fallback_strengths),
       (js ''developmentAreas'', string_array fallback_developmentAreas),
       (js ''careerSuggestions'', string_array fallback_careerSuggestions)]"

section \<open>The analysis step (\<^verbatim>\<open>performMBTIAnalysis\<close>)\<close>

text \<open>
  \<^verbatim>\<open>performMBTIAnalysis\<close> is an \<^verbatim>\<open>async\<close> function with one \<^verbatim>\<open>await\<close>, the
  call of the gateway. It runs in two uninterrupted parts: from its invocation to the
  \<^verbatim>\<open>await\<close>, and from the arrival of the gateway's answer to its return; other code
  of the module can run in between.

  The first part returns at once (\<open>Inl\<close>, with the value returned) or issues the
  gateway call and suspends (\<open>Inr\<close>, with the request). When \<^verbatim>\<open>chatModel.value\<close>
  is \<^verbatim>\<open>null\<close>, \<^verbatim>\<open>chatModel.value.invoke\<close> throws a TypeError inside the \<^verbatim>\<open>try\<close>
  block: the handler returns the default result and \<^verbatim>\<open>finally\<close> clears the flag.
\<close>

definition performMBTIAnalysis_begin :: "state \<Rightarrow> (jsval + request) \<times> state" where
  "performMBTIAnalysis_begin s =
     (if isAnalyzing s then (Inl JNull, s)
      else if \<not> chatModel s then (Inl generateFallbackAnalysis, s\<lparr>isAnalyzing := False\<rparr>)
      else (Inr (AnalysisRequest (conversationHistory s)), s\<lparr>isAnalyzing := True\<rparr>))"

text \<open>
  The rest of the \<^verbatim>\<open>try\<close> block, from the answer of the gateway on: \<open>Inl\<close> is an
  exception thrown inside it (by the gateway, or \<open>AnalysisUnparsable\<close> by the
  \<^verbatim>\<open>throw\<close> at its end).
\<close>

definition performMBTIAnalysis_try ::
  "platform \<Rightarrow> error + jsstring \<Rightarrow> state \<Rightarrow> (error + jsval) \<times> state" where
  "performMBTIAnalysis_try p analysisResponse s =
     (case analysisResponse of
        Inl e \<Rightarrow> (Inl e, s)
      | Inr content \<Rightarrow>
          (let parsed = parseAnalysisResult p content
           in if \<not> truthy parsed then (Inl AnalysisUnparsable, s)
              else (case get_property parsed (js ''mbtiType'') of
                      Inl e \<Rightarrow> (Inl e, s)
                    | Inr t \<Rightarrow>
                        if truthy t
                        then (Inr parsed, s\<lparr>userInfo := (userInfo s)\<lparr>mbtiType := t\<rparr>\<rparr>)
                        else (Inl AnalysisUnparsable, s))))"

text \<open>
  The second part: the \<^verbatim>\<open>try\<close> block, the \<^verbatim>\<open>catch\<close> block that replaces every
  exception by the default result, and \<^verbatim>\<open>finally\<close>. The result is \<open>Inr\<close> of the
  value returned; \<open>Inl\<close> would be an exception that leaves the function.
\<close>

definition performMBTIAnalysis_resume ::
  "platform \<Rightarrow> error + jsstring \<Rightarrow> state \<Rightarrow> (error + jsval) \<times> state" where
  "performMBTIAnalysis_resume p analysisResponse s =
     (case performMBTIAnalysis_try p analysisResponse s of
        (Inl e, s') \<Rightarrow> (Inr generateFallbackAnalysis, s'\<lparr>isAnalyzing := False\<rparr>)
      | (Inr parsed, s') \<Rightarrow> (Inr parsed, s'\<lparr>isAnalyzing := False\<rparr>))"

text \<open>The whole function when nothing else runs during the \<^verbatim>\<open>await\<close>.\<close>

definition performMBTIAnalysis :: "platform \<Rightarrow> state \<Rightarrow> (error + jsval) \<times> state" where
  "performMBTIAnalysis p s =
     (case performMBTIAnalysis_begin s of
        (Inl returned, s') \<Rightarrow> (Inr returned, s')
      | (Inr request, s') \<Rightarrow> performMBTIAnalysis_resume p (invoke p request) s')"

section \<open>The interface of the module\<close>

record send_result =
  message :: jsstring
  analysis :: jsval
  isComplete :: bool

definition push_message :: "chat_message \<Rightarrow> state \<Rightarrow> state" where
  "push_message m s = s\<lparr>conversationHistory := conversationHistory s @ [m]\<rparr>"

text \<open>
  \<^verbatim>\<open>sendMessage\<close>, when nothing else runs during its two \<^verbatim>\<open>await\<close>s. The check of
  \<^verbatim>\<open>isModelReady\<close> stands before the \<^verbatim>\<open>try\<close> block; every exception thrown inside
  the block is wrapped (\<open>AIRequestFailed\<close>) and thrown again.
\<close>

definition sendMessage :: "platform \<Rightarrow> jsstring \<Rightarrow> state \<Rightarrow> (error + send_result) \<times> state" where
  "sendMessage p userMessage s =
     (if \<not> isModelReady s then (Inl ModelNotInitialized, s)
      else
        (let s1 = push_message (HumanMessage userMessage) s
         in case invoke p (ChatRequest (questionsAsked (userInfo s1)) (conversationHistory s1)) of
              Inl e \<Rightarrow> (Inl (AIRequestFailed e), s1)
            | Inr response \<Rightarrow>
                (let s2 = push_message (AIMessage response) s1;
                     s3 = s2\<lparr>userInfo := (userInfo s2)\<lparr>questionsAsked := questionsAsked (userInfo s2) + 1\<rparr>\<rparr>
                 in if shouldAnalyze p s3 response
                    then (case performMBTIAnalysis p s3 of
                            (Inl e, s4) \<Rightarrow> (Inl (AIRequestFailed e), s4)
                          | (Inr result, s4) \<Rightarrow>
                              (Inr \<lparr>message = response, analysis = result, isComplete = True\<rparr>, s4))
                    else (Inr \<lparr>message = response, analysis = JNull, isComplete = False\<rparr>, s3))))"

text \<open>
  The uninterrupted parts of \<^verbatim>\<open>sendMessage\<close>, for the runs in which other code of
  the module runs during an \<^verbatim>\<open>await\<close>. The first part ends with an exception
  (\<open>Inl\<close>) or at the call of the chat model (\<open>Inr\<close>, with the request). The second
  part runs on the answer of the chat model; it ends \<^verbatim>\<open>sendMessage\<close> (\<open>Inl\<close>, with
  the exception thrown or the value returned) or suspends in the analysis step at the call
  of the gateway (\<open>Inr\<close>, with the reply and the request). The third part runs on the
  answer to that call.
\<close>

definition sendMessage_begin :: "jsstring \<Rightarrow> state \<Rightarrow> (error + request) \<times> state" where
  "sendMessage_begin userMessage s =
     (if \<not> isModelReady s then (Inl ModelNotInitialized, s)
      else
        (let s1 = push_message (HumanMessage userMessage) s
         in (Inr (ChatRequest (questionsAsked (userInfo s1)) (conversationHistory s1)), s1)))"

definition sendMessage_reply ::
  "platform \<Rightarrow> error + jsstring \<Rightarrow> state \<Rightarrow>
     ((error + send_result) + jsstring \<times> request) \<times> state" where
  "sendMessage_reply p answer s1 =
     (case answer of
        Inl e \<Rightarrow> (Inl (Inl (AIRequestFailed e)), s1)
      | Inr response \<Rightarrow>
          (let s2 = push_message (AIMessage response) s1;
               s3 = s2\<lparr>userInfo := (userInfo s2)\<lparr>questionsAsked := questionsAsked (userInfo s2) + 1\<rparr>\<rparr>
           in if shouldAnalyze p s3 response
              then (case performMBTIAnalysis_begin s3 of
                      (Inl returned, s4) \<Rightarrow>
                        (Inl (Inr \<lparr>message = response, analysis = returned, isComplete = True\<rparr>), s4)
                    | (Inr request, s4) \<Rightarrow> (Inr (response, request), s4))
              else (Inl (Inr \<lparr>message = response, analysis = JNull, isComplete = False\<rparr>), s3)))"

definition sendMessage_finish ::
  "platform \<Rightarrow> jsstring \<Rightarrow> error + jsstring \<Rightarrow> state \<Rightarrow> (error + send_result) \<times> state" where
  "sendMessage_finish p response analysisResponse s4 =
     (case performMBTIAnalysis_resume p analysisResponse s4 of
        (Inl e, s5) \<Rightarrow> (Inl (AIRequestFailed e), s5)
      | (Inr result, s5) \<Rightarrow>
          (Inr \<lparr>message = response, analysis = result, isComplete = True\<rparr>, s5))"

text \<open>
  The two literal texts of \<^verbatim>\<open>getWelcomeMessage\<close>: the warning returned when the model
  is not ready and the greeting returned when the gateway fails.
\<close>

definition welcome_not_ready :: "jsstring" where
  "welcome_not_ready =
     [0x26A0, 0xFE0F, 0x0020, 0x0044, 0x0065, 0x0065, 0x0070, 0x0053, 0x0065, 0x0065,
      0x006B, 0x0020, 0x0041, 0x0049, 0x6A21, 0x578B, 0x672A, 0x51C6, 0x5907, 0x5C31,
      0x7EEA, 0xFF0C, 0x8BF7, 0x68C0, 0x67E5, 0x914D, 0x7F6E, 0x6587, 0x4EF6, 0x4E2D,
      0x7684, 0x0041, 0x0050, 0x0049, 0x0020, 0x004B, 0x0065, 0x0079, 0x8BBE, 0x7F6E]"

definition welcome_fallback :: "jsstring" where
  "welcome_fallback =
     [0x4F60, 0x597D, 0xFF01, 0x6211, 0x662F, 0x4F60, 0x7684, 0x004D, 0x0042, 0x0054,
      0x0049, 0x6027, 0x683C, 0x5206, 0x6790, 0x5E08, 0x3002, 0x8BA9, 0x6211, 0x4EEC,
      0x5F00, 0x59CB, 0x4E86, 0x89E3, 0x4F60, 0x7684, 0x6027, 0x683C, 0x7279, 0x70B9,
      0x5427, 0xFF01, 0x8BF7, 0x544A, 0x8BC9, 0x6211, 0xFF0C, 0x5728, 0x4E00, 0x4E2A,
      0x805A, 0x4F1A, 0x4E0A, 0xFF0C, 0x4F60, 0x901A, 0x5E38, 0x66F4, 0x613F, 0x610F,
      0x4E0E, 0x51E0, 0x4E2A, 0x719F, 0x6089, 0x7684, 0x670B, 0x53CB, 0x6DF1, 0x5165,
      0x4EA4, 0x8C08, 0xFF0C, 0x8FD8, 0x662F, 0x559C, 0x6B22, 0x8BA4, 0x8BC6, 0x66F4,
      0x591A, 0x65B0, 0x670B, 0x53CB, 0xFF1F]"

definition getWelcomeMessage :: "platform \<Rightarrow> state \<Rightarrow> jsstring \<times> state" where
  "getWelcomeMessage p s =
     (if \<not> isModelReady s then (welcome_not_ready, s)
      else (case invoke p (WelcomeRequest (questionsAsked (userInfo s))) of
              Inl e \<Rightarrow> (welcome_fallback, s)
            | Inr response \<Rightarrow> (response, push_message (AIMessage response) s)))"

definition resetConversation :: "state \<Rightarrow> state" where
  "resetConversation s =
     s\<lparr>conversationHistory := [],
       userInfo := (userInfo s)\<lparr>mbtiType := JNull, traits := [], questionsAsked := 0,
                                collectedData := []\<rparr>,
       isAnalyzing := False\<rparr>"

definition getConversationHistory :: "state \<Rightarrow> chat_message list" where
  "getConversationHistory s = conversationHistory s"

definition getUserInfo :: "state \<Rightarrow> user_info" where
  "getUserInfo s = userInfo s"

section \<open>Sessions\<close>

subsection \<open>Calls of the interface, one after the other\<close>

datatype api_call = SendMessage platform jsstring | GetWelcomeMessage platform

fun run_call :: "api_call \<Rightarrow> state \<Rightarrow> state" where
  "run_call (SendMessage p userMessage) s = snd (sendMessage p userMessage s)"
| "run_call (GetWelcomeMessage p) s = snd (getWelcomeMessage p s)"

fun run_calls :: "api_call list \<Rightarrow> state \<Rightarrow> state" where
  "run_calls [] s = s"
| "run_calls (c # cs) s = run_calls cs (run_call c s)"

definition assistant_turns :: "state \<Rightarrow> nat" where
  "assistant_turns s =
     length (filter (\<lambda>m. case m of AIMessage text \<Rightarrow> True | HumanMessage text \<Rightarrow> False)
       (conversationHistory s))"

text \<open>Whether a call is a \<^verbatim>\<open>getWelcomeMessage\<close> that appends the welcome message.\<close>

fun appends_welcome :: "api_call \<Rightarrow> state \<Rightarrow> bool" where
  "appends_welcome (GetWelcomeMessage p) s =
     (isModelReady s \<and>
      (case invoke p (WelcomeRequest (questionsAsked (userInfo s))) of
         Inl e \<Rightarrow> False
       | Inr response \<Rightarrow> True))"
| "appends_welcome (SendMessage p userMessage) s = False"

fun welcome_turns :: "api_call list \<Rightarrow> state \<Rightarrow> nat" where
  "welcome_turns [] s = 0"
| "welcome_turns (c # cs) s =
     (if appends_welcome c s then 1 else 0) + welcome_turns cs (run_call c s)"

subsection \<open>Calls that overlap\<close>

text \<open>
  The uninterrupted parts of \<^verbatim>\<open>sendMessage\<close> and of the analysis step as events of
  a run of the module, with \<^verbatim>\<open>resetConversation\<close>:
  \<^item> \<open>Send\<close>: a call of \<^verbatim>\<open>sendMessage\<close>, up to its call of the chat model;
  \<^item> \<open>ChatAnswer\<close>: the answer of the chat model to a \<^verbatim>\<open>sendMessage\<close> in flight,
    which runs its second part and so invokes the analysis step when
    \<^verbatim>\<open>shouldAnalyze\<close> holds;
  \<^item> \<open>InvokeAnalysis\<close>: an invocation of \<^verbatim>\<open>performMBTIAnalysis\<close> by itself, which
    runs its first part;
  \<^item> \<open>GatewayAnswer\<close>: the answer of the gateway to the analysis call numbered \<open>i\<close>,
    which runs the second part of the invocation that issued the call;
  \<^item> \<open>Reset\<close>: a call of \<^verbatim>\<open>resetConversation\<close>.

  Beside the state of the module, a run records the number of \<^verbatim>\<open>sendMessage\<close> calls
  that wait for the chat model, the analysis calls that were issued and are not answered
  yet (\<open>in_flight\<close>), the number of analysis calls issued so far, which numbers the
  next one, and that number at the last reset. An answer to a call that is not in flight
  is no event of the module: it changes nothing. The platform of an answer supplies
  \<^verbatim>\<open>toLowerCase\<close> and \<^verbatim>\<open>JSON.parse\<close> to the part that runs on the answer.
\<close>

datatype event =
    Send jsstring
  | ChatAnswer platform "error + jsstring"
  | InvokeAnalysis
  | GatewayAnswer nat platform "error + jsstring"
  | Reset

record run =
  module_state :: state
  chats_in_flight :: nat
  in_flight :: "nat list"
  calls_issued :: nat
  calls_at_reset :: nat

text \<open>The run after a gateway call of the analysis step was issued in state \<open>s'\<close>.\<close>

definition issue_call :: "state \<Rightarrow> run \<Rightarrow> run" where
  "issue_call s' r =
     r\<lparr>module_state := s', in_flight := in_flight r @ [calls_issued r],
       calls_issued := calls_issued r + 1\<rparr>"

fun step :: "event \<Rightarrow> run \<Rightarrow> run" where
  "step (Send userMessage) r =
     (case sendMessage_begin userMessage (module_state r) of
        (Inl e, s') \<Rightarrow> r\<lparr>module_state := s'\<rparr>
      | (Inr request, s') \<Rightarrow> r\<lparr>module_state := s', chats_in_flight := chats_in_flight r + 1\<rparr>)"
| "step (ChatAnswer p answer) r =
     (if chats_in_flight r = 0 then r
      else
        (case sendMessage_reply p answer (module_state r) of
           (Inl finished, s') \<Rightarrow>
             r\<lparr>module_state := s', chats_in_flight := chats_in_flight r - 1\<rparr>
         | (Inr (response, request), s') \<Rightarrow>
             issue_call s' (r\<lparr>chats_in_flight := chats_in_flight r - 1\<rparr>)))"
| "step InvokeAnalysis r =
     (case performMBTIAnalysis_begin (module_state r) of
        (Inl returned, s') \<Rightarrow> r\<lparr>module_state := s'\<rparr>
      | (Inr request, s') \<Rightarrow> issue_call s' r)"
| "step (GatewayAnswer i p analysisResponse) r =
     (if i \<in> set (in_flight r)
      then r\<lparr>module_state := snd (performMBTIAnalysis_resume p analysisResponse (module_state r)),
             in_flight := removeAll i (in_flight r)\<rparr>
      else r)"
| "step Reset r =
     r\<lparr>module_state := resetConversation (module_state r), calls_at_reset := calls_issued r\<rparr>"

fun steps :: "event list \<Rightarrow> run \<Rightarrow> run" where
  "steps [] r = r"
| "steps (e # es) r = steps es (step e r)"

text \<open>The calls in flight that were issued since the last reset.\<close>

definition in_flight_of_session :: "run \<Rightarrow> nat list" where
  "in_flight_of_session r = filter (\<lambda>i. calls_at_reset r \<le> i) (in_flight r)"

text \<open>No reset happens while a gateway call of the analysis step is in flight.\<close>

fun resets_when_idle :: "event list \<Rightarrow> run \<Rightarrow> bool" where
  "resets_when_idle [] r = True"
| "resets_when_idle (Reset # es) r = (in_flight r = [] \<and> resets_when_idle es (step Reset r))"
| "resets_when_idle (e # es) r = resets_when_idle es (step e r)"


definition start_of_run :: "state \<Rightarrow> run" where
  "start_of_run s =
     \<lparr>module_state = resetConversation s, chats_in_flight = 0, in_flight = [],
      calls_issued = 0, calls_at_reset = 0\<rparr>"

text \<open>
  What the flag \<^verbatim>\<open>isAnalyzing\<close> says about the calls in flight, as long as no reset
  interferes: exactly one call when it is set, none when it is clear.
\<close>

definition guard_invariant :: "run \<Rightarrow> bool" where
  "guard_invariant r =
     (if isAnalyzing (module_state r) then length (in_flight r) = 1 else in_flight r = [])"

subsection \<open>The poles of a result\<close>

text \<open>
  \<^verbatim>\<open>dimensions[axis].type\<close> for every axis of a \<^verbatim>\<open>dimensions\<close> object, in the
  order of its properties.
\<close>

fun dimension_poles :: "jsval \<Rightarrow> (jsstring \<times> jsval) list" where
  "dimension_poles (JObject dims) =
     map (\<lambda>(axis, d). (axis, case get_property d (js ''type'') of
                                Inr pole \<Rightarrow> pole
                              | Inl e \<Rightarrow> JUndefined)) dims"
| "dimension_poles v = []"

section \<open>A platform and sessions for the examples\<close>

text \<open>
  Lower-casing of the ASCII letters: what \<^verbatim>\<open>toLowerCase\<close> does on a text of ASCII
  characters and Chinese characters, which is what the examples use.
\<close>

definition toLowerCase_ascii :: "jsstring \<Rightarrow> jsstring" where
  "toLowerCase_ascii s = map (\<lambda>c. if 0x41 \<le> c \<and> c \<le> 0x5A then c + 0x20 else c) s"

text \<open>
  A platform whose gateway answers every request with the same text, and one whose
  gateway fails. The decoder of both rejects its input; no example decodes a text with
  them.
\<close>

definition answering :: "jsstring \<Rightarrow> platform" where
  "answering reply =
     \<lparr>toLowerCase = toLowerCase_ascii, JSON_parse = (\<lambda>text. None),
      invoke = (\<lambda>request. Inr reply)\<rparr>"

definition unreachable :: platform where
  "unreachable =
     \<lparr>toLowerCase = toLowerCase_ascii, JSON_parse = (\<lambda>text. None),
      invoke = (\<lambda>request. Inl (GatewayError (js ''timeout'')))\<rparr>"

text \<open>A platform like \<open>p\<close> whose decoder rejects the given text.\<close>

definition rejecting :: "platform \<Rightarrow> jsstring \<Rightarrow> platform" where
  "rejecting p text = p\<lparr>JSON_parse := (JSON_parse p)(text := None)\<rparr>"

text \<open>
  Sessions: a fresh one with a ready model, one with the given number of questions
  asked, one with the given history, and one in the middle of an analysis.
\<close>

definition fresh :: state where
  "fresh =
     \<lparr>chatModel = True, conversationHistory = [], isAnalyzing = False, isInitialized = True,
      userInfo = \<lparr>mbtiType = JNull, traits = [], questionsAsked = 0, collectedData = []\<rparr>\<rparr>"

definition asked :: "nat \<Rightarrow> state" where
  "asked n = fresh\<lparr>userInfo := (userInfo fresh)\<lparr>questionsAsked := n\<rparr>\<rparr>"


definition analysing :: state where
  "analysing =
     \<lparr>chatModel = True,
      conversationHistory = [AIMessage (js ''Hello''), HumanMessage (js ''Hi'')],
      isAnalyzing = True, isInitialized = True,
      userInfo = \<lparr>mbtiType = JString (js ''INTJ''), traits = [], questionsAsked = 5,
                  collectedData = []\<rparr>\<rparr>"



text \<open>
  Two answers to the analysis request that are not JSON: an object literal with an
  unquoted key, and a malformed object followed by the line \<^verbatim>\<open>leixing: INTJ\<close>.
\<close>

definition malformed_json :: jsstring where
  "malformed_json = js ''{mbtiType: INTJ}''"

definition malformed_then_line :: jsstring where
  "malformed_then_line = js ''{bad}'' @ [0x0A] @ word_leixing @ js '': INTJ''"

text \<open>A gateway failure, and two runs of analysis steps and resets.\<close>

definition gateway_timeout :: "error + jsstring" where
  "gateway_timeout = Inl (GatewayError (js ''timeout''))"

definition reset_during_analysis :: "event list" where
  "reset_during_analysis =
     [InvokeAnalysis, Reset, InvokeAnalysis, GatewayAnswer 0 unreachable gateway_timeout,
      InvokeAnalysis]"

definition reset_after_analysis :: "event list" where
  "reset_after_analysis =
     [InvokeAnalysis, InvokeAnalysis, GatewayAnswer 0 unreachable gateway_timeout, Reset,
      InvokeAnalysis, InvokeAnalysis]"

text \<open>
  The same through \<^verbatim>\<open>sendMessage\<close>. An exchange is a message with its reply; the
  fourth exchange of a session has a reply that holds fenxi (analysis) and so invokes the
  analysis step. The run: four exchanges, of which the last issues call 0; a reset; four
  exchanges, of which the last issues call 1; the answer to call 0; one more exchange.
\<close>

definition exchange :: "jsstring \<Rightarrow> event list" where
  "exchange reply = [Send (js ''a''), ChatAnswer (answering reply) (Inr reply)]"

definition four_exchanges :: "event list" where
  "four_exchanges =
     exchange (js ''b'') @ exchange (js ''b'') @ exchange (js ''b'') @
     exchange [0x5206, 0x6790]"

definition reset_during_analysis_by_messages :: "event list" where
  "reset_during_analysis_by_messages =
     four_exchanges @ [Reset] @ four_exchanges @
     [GatewayAnswer 0 unreachable gateway_timeout] @ exchange [0x5206, 0x6790]"



text \<open>Three calls of the interface, the last with a failing gateway.\<close>

definition welcome_and_two_messages :: "api_call list" where
  "welcome_and_two_messages =
     [GetWelcomeMessage (answering (js ''Hello'')),
      SendMessage (answering (js ''And then?'')) (js ''Hi''),
      SendMessage unreachable (js ''Well'')]"

section \<open>Properties of the building blocks\<close>

subsection \<open>Strings and arrays\<close>

lemma str_includes_sublist: "str_includes s k = sublist k s"
  by (induction s) (auto simp: sublist_Cons_right)

lemma array_some_iff: "array_some f xs = (\<exists>x \<in> set xs. f x)"
  by (induction xs) auto

lemma match_upper4_length: "match_upper4 line = Some found \<Longrightarrow> length found = 4"
  by (induction line rule: match_upper4.induct) (auto split: if_splits)

lemma match_upper4_upper: "match_upper4 line = Some found \<Longrightarrow> list_all is_upper found"
  by (induction line rule: match_upper4.induct) (auto split: if_splits)

lemma match_upper4_sublist: "match_upper4 line = Some found \<Longrightarrow> sublist found line"
proof (induction line rule: match_upper4.induct)
  case (1 a b c d rest)
  show ?case
  proof (cases "is_upper a \<and> is_upper b \<and> is_upper c \<and> is_upper d")
    case True
    with 1 have "found = [a, b, c, d]" by auto
    then have "a # b # c # d # rest = [] @ found @ rest" by simp
    then show ?thesis unfolding sublist_def by blast
  next
    case False
    with 1 have "sublist found (b # c # d # rest)" by auto
    then show ?thesis by (simp add: sublist_Cons_right)
  qed
qed simp_all

text \<open>
  The model of the brace pattern against the meaning of the regular expression: the
  match runs from the first opening brace to the last closing brace after it.
\<close>

lemma dropWhile_until:
  "x \<notin> set pre \<Longrightarrow> dropWhile (\<lambda>c. c \<noteq> x) (pre @ x # post) = x # post"
  by (induction pre) auto

lemma match_braces_Some_iff:
  "match_braces content = Some m \<longleftrightarrow>
   (\<exists>pre body post. content = pre @ 0x7B # body @ 0x7D # post \<and>
      0x7B \<notin> set pre \<and> 0x7D \<notin> set post \<and> m = 0x7B # body @ [0x7D])"
proof
  assume "match_braces content = Some m"
  then obtain brace rest where
    d: "dropWhile (\<lambda>c. c \<noteq> 0x7B) content = brace # rest" and
    r: "0x7D \<in> set rest" and
    m: "m = brace # rev (dropWhile (\<lambda>c. c \<noteq> 0x7D) (rev rest))"
    by (auto simp: match_braces_def split: list.splits if_splits)
  from d have "content = takeWhile (\<lambda>c. c \<noteq> 0x7B) content @ brace # rest \<and> brace = 0x7B"
    unfolding dropWhile_eq_Cons_conv by blast
  then have c: "content = takeWhile (\<lambda>c. c \<noteq> 0x7B) content @ brace # rest"
    and o: "brace = 0x7B"
    by blast+
  from r have "dropWhile (\<lambda>c. c \<noteq> 0x7D) (rev rest) \<noteq> []"
    by (simp add: dropWhile_eq_Nil_conv)
  then obtain y ys where dy: "dropWhile (\<lambda>c. c \<noteq> 0x7D) (rev rest) = y # ys"
    by (cases "dropWhile (\<lambda>c. c \<noteq> 0x7D) (rev rest)") auto
  then have "rev rest = takeWhile (\<lambda>c. c \<noteq> 0x7D) (rev rest) @ y # ys \<and> y = 0x7D"
    unfolding dropWhile_eq_Cons_conv by blast
  then have rr: "rev rest = takeWhile (\<lambda>c. c \<noteq> 0x7D) (rev rest) @ y # ys"
    and y: "y = 0x7D"
    by blast+
  define post where "post = rev (takeWhile (\<lambda>c. c \<noteq> 0x7D) (rev rest))"
  from rr have "rev (rev rest) = rev (takeWhile (\<lambda>c. c \<noteq> 0x7D) (rev rest) @ y # ys)"
    by simp
  then have rest: "rest = rev ys @ 0x7D # post"
    by (simp add: post_def y)
  have np: "0x7D \<notin> set post"
    unfolding post_def set_rev using set_takeWhileD by fastforce
  have npre: "0x7B \<notin> set (takeWhile (\<lambda>c. c \<noteq> 0x7B) content)"
    using set_takeWhileD by fastforce
  from c o rest
  have "content = takeWhile (\<lambda>c. c \<noteq> 0x7B) content @ 0x7B # rev ys @ 0x7D # post"
    by simp
  moreover from m o dy y have "m = 0x7B # rev ys @ [0x7D]" by simp
  ultimately show "\<exists>pre body post. content = pre @ 0x7B # body @ 0x7D # post \<and>
      0x7B \<notin> set pre \<and> 0x7D \<notin> set post \<and> m = 0x7B # body @ [0x7D]"
    using np npre by blast
next
  assume "\<exists>pre body post. content = pre @ 0x7B # body @ 0x7D # post \<and>
      0x7B \<notin> set pre \<and> 0x7D \<notin> set post \<and> m = 0x7B # body @ [0x7D]"
  then obtain pre body post where c: "content = pre @ 0x7B # body @ 0x7D # post"
    and pre: "0x7B \<notin> set pre" and post: "0x7D \<notin> set post" and m: "m = 0x7B # body @ [0x7D]"
    by blast
  from pre have d: "dropWhile (\<lambda>c. c \<noteq> 0x7B) content = 0x7B # body @ 0x7D # post"
    unfolding c by (rule dropWhile_until)
  from post have "0x7D \<notin> set (rev post)" by simp
  then have "dropWhile (\<lambda>c. c \<noteq> 0x7D) (rev post @ 0x7D # rev body) = 0x7D # rev body"
    by (rule dropWhile_until)
  then have "rev (dropWhile (\<lambda>c. c \<noteq> 0x7D) (rev (body @ 0x7D # post))) = body @ [0x7D]"
    by simp
  with d m show "match_braces content = Some m"
    by (simp add: match_braces_def)
qed

subsection \<open>The coverage heuristic\<close>

lemma coveredDimensions_count:
  "coveredDimensions t es n = n + length (filter (\<lambda>e. axis_covered t (snd e)) es)"
  by (induction t es n rule: coveredDimensions.induct)
     (auto simp: axis_covered_def array_some_iff str_includes_sublist)

lemma distinct_dimensionKeywords: "distinct (map fst dimensionKeywords)"
  by (simp add: dimensionKeywords_def js_def)

lemma card_covered_axes:
  "card (covered_axes t) = coveredDimensions t dimensionKeywords 0"
proof -
  let ?P = "\<lambda>e. axis_covered t (snd e)"
  have eq: "covered_axes t = set (map fst (filter ?P dimensionKeywords))"
    by (auto simp: covered_axes_def)
  have "distinct (map fst (filter ?P dimensionKeywords))"
    by (rule distinct_map_filter [OF distinct_dimensionKeywords])
  then have "card (set (map fst (filter ?P dimensionKeywords))) =
      length (map fst (filter ?P dimensionKeywords))"
    by (rule distinct_card)
  with eq have "card (covered_axes t) = length (filter ?P dimensionKeywords)"
    by simp
  then show ?thesis
    by (simp add: coveredDimensions_count)
qed


subsection \<open>The tiers of the parser\<close>

lemma parseAnalysisResult_no_braces:
  "match_braces content = None \<Longrightarrow>
   parseAnalysisResult p content = parseAlternativeFormat content"
  by (simp add: parseAnalysisResult_def parseAnalysisResult_try_def)

lemma parseAnalysisResult_missing_fields:
  "match_braces content = Some jsonMatch \<Longrightarrow> JSON_parse p jsonMatch = Some decoded \<Longrightarrow>
   has_required_fields decoded = Inr False \<Longrightarrow>
   parseAnalysisResult p content = parseAlternativeFormat content"
  by (simp add: parseAnalysisResult_def parseAnalysisResult_try_def)

lemma parseAnalysisResult_syntax_error:
  "match_braces content = Some jsonMatch \<Longrightarrow> JSON_parse p jsonMatch = None \<Longrightarrow>
   parseAnalysisResult p content = JNull"
  by (simp add: parseAnalysisResult_def parseAnalysisResult_try_def)

text \<open>
  Where the strict tier finds no brace-delimited text, or decodes an object that lacks a
  field (the two lemmas above), the line scan runs, and a type it finds is the first
  run of four capital letters of a line that holds the key name or the word leixing.
  The result synthesized from a type \<open>t\<close> holds \<open>t\<close>, four dimensions of
  confidence 0.75 and the texts of the table's entry for \<open>t\<close>, which is the entry of
  ENFP for every type but INTJ.
\<close>

lemma scan_lines_found:
  "scan_lines ls \<noteq> [] \<Longrightarrow>
   \<exists>line \<in> set ls.
     (str_includes line (js ''mbtiType'') \<or> str_includes line word_leixing) \<and>
     match_upper4 line = Some (scan_lines ls)"
  by (induction ls) (auto split: if_splits option.splits)

lemma parseAlternativeFormat_synthesis:
  "scan_lines (str_split 0x0A content) \<noteq> [] \<Longrightarrow>
   parseAlternativeFormat content = generateBasicAnalysis (scan_lines (str_split 0x0A content))"
  by (simp add: parseAlternativeFormat_def)

lemma typeInfo_table:
  "typeInfo (js ''ENFP'') = typeDescriptions_ENFP"
  "typeInfo (js ''INTJ'') = typeDescriptions_INTJ"
  "t \<noteq> js ''INTJ'' \<Longrightarrow> typeInfo t = typeDescriptions_ENFP"
  by (auto simp: typeInfo_def typeDescriptions_def js_def)

lemma generateDimensionsAnalysis_confidence:
  "\<exists>dims. generateDimensionsAnalysis t = JObject dims \<and>
     map (\<lambda>(axis, d). get_property d (js ''confidence'')) dims =
       [Inr (JNumber 0.75), Inr (JNumber 0.75), Inr (JNumber 0.75), Inr (JNumber 0.75)]"
  by (simp add: generateDimensionsAnalysis_def js_def)

lemma scan_lines_length: "scan_lines ls \<noteq> [] \<Longrightarrow> length (scan_lines ls) = 4"
  by (induction ls) (auto split: if_splits option.splits dest: match_upper4_length)

lemma generateBasicAnalysis_mbtiType:
  "get_property (generateBasicAnalysis t) (js ''mbtiType'') = Inr (JString t)"
  by (simp add: generateBasicAnalysis_def js_def)

lemma parseAlternativeFormat_cases:
  "parseAlternativeFormat content = JNull \<or>
   (\<exists>t. t \<noteq> [] \<and> parseAlternativeFormat content = generateBasicAnalysis t)"
  by (auto simp: parseAlternativeFormat_def Let_def)

lemma has_required_fields_mbtiType:
  "has_required_fields decoded = Inr True \<Longrightarrow>
   \<exists>t. get_property decoded (js ''mbtiType'') = Inr t \<and> truthy t"
  by (auto simp: has_required_fields_def split: sum.splits if_splits)

lemma has_required_fields_truthy: "has_required_fields decoded = Inr True \<Longrightarrow> truthy decoded"
  by (cases decoded) (auto simp: has_required_fields_def split: sum.splits if_splits)

lemma parseAnalysisResult_mbtiType:
  assumes "truthy (parseAnalysisResult p content)"
  shows "\<exists>t. get_property (parseAnalysisResult p content) (js ''mbtiType'') = Inr t \<and> truthy t"
proof -
  have alt: "truthy (parseAlternativeFormat content) \<Longrightarrow>
      \<exists>t. get_property (parseAlternativeFormat content) (js ''mbtiType'') = Inr t \<and> truthy t"
    using parseAlternativeFormat_cases [of content]
    by (auto simp: generateBasicAnalysis_mbtiType)
  show ?thesis
    using assms alt
    by (auto simp: parseAnalysisResult_def parseAnalysisResult_try_def
          split: option.splits sum.splits bool.splits dest: has_required_fields_mbtiType)
qed

lemma parseAnalysisResult_falsy:
  "\<not> truthy (parseAnalysisResult p content) \<longleftrightarrow> parseAnalysisResult p content = JNull"
proof
  assume f: "\<not> truthy (parseAnalysisResult p content)"
  have alt: "\<not> truthy (parseAlternativeFormat content) \<Longrightarrow> parseAlternativeFormat content = JNull"
    using parseAlternativeFormat_cases [of content]
    by (auto simp: generateBasicAnalysis_def)
  from f alt show "parseAnalysisResult p content = JNull"
    by (auto simp: parseAnalysisResult_def parseAnalysisResult_try_def
          split: option.splits sum.splits bool.splits dest: has_required_fields_truthy)
qed simp

subsection \<open>The analysis step\<close>

lemma performMBTIAnalysis_try_fails_iff:
  "(\<exists>e. fst (performMBTIAnalysis_try p analysisResponse s) = Inl e) \<longleftrightarrow>
   (\<exists>e. analysisResponse = Inl e) \<or>
   (\<exists>content. analysisResponse = Inr content \<and> \<not> truthy (parseAnalysisResult p content))"
  by (cases analysisResponse)
     (auto simp: performMBTIAnalysis_try_def Let_def split: sum.splits
       dest!: parseAnalysisResult_mbtiType)

lemma resume_result:
  "fst (performMBTIAnalysis_resume p response s) =
     (case fst (performMBTIAnalysis_try p response s) of
        Inl e \<Rightarrow> Inr generateFallbackAnalysis
      | Inr parsed \<Rightarrow> Inr parsed)"
  by (simp add: performMBTIAnalysis_resume_def split: prod.splits sum.splits)

lemma resume_clears_flag:
  "\<not> isAnalyzing (snd (performMBTIAnalysis_resume p response s))"
  by (simp add: performMBTIAnalysis_resume_def split: prod.splits sum.splits)

lemma resume_returns: "\<exists>result. fst (performMBTIAnalysis_resume p response s) = Inr result"
  by (simp add: resume_result split: sum.splits)

lemma resume_fallback:
  assumes "(\<exists>e. response = Inl e) \<or>
           (\<exists>content. response = Inr content \<and> parseAnalysisResult p content = JNull)"
  shows "fst (performMBTIAnalysis_resume p response s) = Inr generateFallbackAnalysis"
proof -
  from assms have "\<exists>e. fst (performMBTIAnalysis_try p response s) = Inl e"
    by (subst performMBTIAnalysis_try_fails_iff) (auto simp: parseAnalysisResult_falsy)
  then show ?thesis
    by (auto simp: resume_result)
qed

lemma performMBTIAnalysis_returns: "\<exists>result. fst (performMBTIAnalysis p s) = Inr result"
  using resume_returns
  by (auto simp: performMBTIAnalysis_def performMBTIAnalysis_begin_def)

lemma resume_frame:
  "conversationHistory (snd (performMBTIAnalysis_resume p response s)) = conversationHistory s \<and>
   questionsAsked (userInfo (snd (performMBTIAnalysis_resume p response s))) =
     questionsAsked (userInfo s)"
  by (auto simp: performMBTIAnalysis_resume_def performMBTIAnalysis_try_def Let_def
        split: prod.splits sum.splits if_splits)

lemma performMBTIAnalysis_frame:
  "conversationHistory (snd (performMBTIAnalysis p s)) = conversationHistory s \<and>
   questionsAsked (userInfo (snd (performMBTIAnalysis p s))) = questionsAsked (userInfo s)"
  by (simp add: performMBTIAnalysis_def performMBTIAnalysis_begin_def resume_frame)

text \<open>The parts of \<^verbatim>\<open>sendMessage\<close>, run without interruption, are \<^verbatim>\<open>sendMessage\<close>.\<close>

lemma sendMessage_parts:
  "sendMessage p userMessage s =
     (case sendMessage_begin userMessage s of
        (Inl e, s') \<Rightarrow> (Inl e, s')
      | (Inr request, s1) \<Rightarrow>
          (case sendMessage_reply p (invoke p request) s1 of
             (Inl finished, s') \<Rightarrow> (finished, s')
           | (Inr (response, request'), s4) \<Rightarrow>
               sendMessage_finish p response (invoke p request') s4))"
  by (auto simp: sendMessage_def sendMessage_begin_def sendMessage_reply_def
        sendMessage_finish_def performMBTIAnalysis_def Let_def
        split: sum.splits prod.splits)

subsection \<open>The flag and the calls in flight\<close>

lemma guard_invariant_step:
  assumes "guard_invariant r" and "e = Reset \<longrightarrow> in_flight r = []"
  shows "guard_invariant (step e r)"
proof (cases e)
  case (Send userMessage)
  with assms(1) show ?thesis
    by (auto simp: guard_invariant_def sendMessage_begin_def push_message_def Let_def)
next
  case (ChatAnswer p answer)
  with assms(1) show ?thesis
    by (cases answer)
       (auto simp: guard_invariant_def sendMessage_reply_def Let_def issue_call_def
          performMBTIAnalysis_begin_def push_message_def split: if_splits)
next
  case InvokeAnalysis
  with assms(1) show ?thesis
    by (auto simp: guard_invariant_def issue_call_def performMBTIAnalysis_begin_def
          split: if_splits)
next
  case (GatewayAnswer i p response)
  show ?thesis
  proof (cases "i \<in> set (in_flight r)")
    case True
    with assms(1) have "in_flight r = [i]"
      by (cases "in_flight r") (auto simp: guard_invariant_def split: if_splits)
    with GatewayAnswer show ?thesis
      by (simp add: guard_invariant_def resume_clears_flag)
  next
    case False
    with GatewayAnswer assms(1) show ?thesis by simp
  qed
next
  case Reset
  with assms show ?thesis
    by (simp add: guard_invariant_def resetConversation_def)
qed

lemma resets_when_idle_Cons:
  "resets_when_idle (e # es) r \<longleftrightarrow>
   (e = Reset \<longrightarrow> in_flight r = []) \<and> resets_when_idle es (step e r)"
  by (cases e) simp_all

lemma guard_invariant_steps:
  "guard_invariant r \<Longrightarrow> resets_when_idle es r \<Longrightarrow> guard_invariant (steps es r)"
proof (induction es arbitrary: r)
  case Nil
  then show ?case by simp
next
  case (Cons e es)
  from Cons.prems(2) have idle: "e = Reset \<longrightarrow> in_flight r = []"
    and rest: "resets_when_idle es (step e r)"
    by (simp_all add: resets_when_idle_Cons)
  from Cons.prems(1) idle have "guard_invariant (step e r)"
    by (rule guard_invariant_step)
  with rest show ?case
    by (simp add: Cons.IH)
qed

lemma guard_invariant_start: "guard_invariant (start_of_run s)"
  by (simp add: guard_invariant_def start_of_run_def resetConversation_def)

lemma guard_invariant_bound: "guard_invariant r \<Longrightarrow> length (in_flight r) \<le> 1"
  by (simp add: guard_invariant_def split: if_splits)

subsection \<open>The history in a run without reset\<close>







subsection \<open>The question counter and the assistant turns\<close>

lemma sendMessage_effect:
  "(conversationHistory (snd (sendMessage p m s)) = conversationHistory s \<and>
    questionsAsked (userInfo (snd (sendMessage p m s))) = questionsAsked (userInfo s)) \<or>
   (conversationHistory (snd (sendMessage p m s)) = conversationHistory s @ [HumanMessage m] \<and>
    questionsAsked (userInfo (snd (sendMessage p m s))) = questionsAsked (userInfo s)) \<or>
   (\<exists>response.
      conversationHistory (snd (sendMessage p m s)) =
        conversationHistory s @ [HumanMessage m, AIMessage response] \<and>
      questionsAsked (userInfo (snd (sendMessage p m s))) = questionsAsked (userInfo s) + 1)"
proof (cases "isModelReady s")
  case False
  then show ?thesis by (simp add: sendMessage_def)
next
  case ready: True
  define s1 where "s1 = push_message (HumanMessage m) s"
  show ?thesis
  proof (cases "invoke p (ChatRequest (questionsAsked (userInfo s1)) (conversationHistory s1))")
    case (Inl e)
    with ready have "snd (sendMessage p m s) = s1"
      by (simp add: sendMessage_def s1_def Let_def)
    then show ?thesis by (simp add: s1_def push_message_def)
  next
    case (Inr response)
    define s2 where "s2 = push_message (AIMessage response) s1"
    define s3 where
      "s3 = s2\<lparr>userInfo := (userInfo s2)\<lparr>questionsAsked := questionsAsked (userInfo s2) + 1\<rparr>\<rparr>"
    have s3: "conversationHistory s3 = conversationHistory s @ [HumanMessage m, AIMessage response]"
      "questionsAsked (userInfo s3) = questionsAsked (userInfo s) + 1"
      by (simp_all add: s3_def s2_def s1_def push_message_def)
    have "snd (sendMessage p m s) = s3 \<or> snd (sendMessage p m s) = snd (performMBTIAnalysis p s3)"
      using ready Inr
      by (auto simp: sendMessage_def Let_def s1_def s2_def s3_def split: prod.splits sum.splits)
    with s3 performMBTIAnalysis_frame [of p s3] show ?thesis
      by auto
  qed
qed

lemma sendMessage_turns:
  "assistant_turns (snd (sendMessage p m s)) + questionsAsked (userInfo s) =
   assistant_turns s + questionsAsked (userInfo (snd (sendMessage p m s)))"
  using sendMessage_effect [of p m s]
  by (auto simp: assistant_turns_def)

lemma getWelcomeMessage_turns:
  "assistant_turns (snd (getWelcomeMessage p s)) =
     assistant_turns s + (if appends_welcome (GetWelcomeMessage p) s then 1 else 0) \<and>
   questionsAsked (userInfo (snd (getWelcomeMessage p s))) = questionsAsked (userInfo s)"
  by (auto simp: getWelcomeMessage_def assistant_turns_def push_message_def split: sum.splits)

lemma run_call_turns:
  "assistant_turns (run_call c s) + questionsAsked (userInfo s) =
   assistant_turns s + questionsAsked (userInfo (run_call c s)) +
     (if appends_welcome c s then 1 else 0)"
proof (cases c)
  case (SendMessage p m)
  then show ?thesis using sendMessage_turns [of p m s] by simp
next
  case (GetWelcomeMessage p)
  then show ?thesis using getWelcomeMessage_turns [of p s] by simp
qed

lemma run_calls_turns:
  "assistant_turns (run_calls cs s) + questionsAsked (userInfo s) =
   assistant_turns s + questionsAsked (userInfo (run_calls cs s)) + welcome_turns cs s"
proof (induction cs arbitrary: s)
  case Nil
  then show ?case by simp
next
  case (Cons c cs)
  from Cons.IH [of "run_call c s"] run_call_turns [of c s] show ?case
    by simp
qed

subsection \<open>The examples, evaluated\<close>



lemma match_braces_malformed_json: "match_braces malformed_json = Some malformed_json"
  by (simp add: match_braces_def malformed_json_def js_def)

lemma line_scan_malformed_json:
  "parseAlternativeFormat malformed_json = generateBasicAnalysis (js ''INTJ'')"
  by (simp add: parseAlternativeFormat_def malformed_json_def js_def is_upper_def
        word_leixing_def)

lemma match_braces_malformed_then_line:
  "match_braces malformed_then_line = Some (js ''{bad}'')"
  by (simp add: match_braces_def malformed_then_line_def js_def word_leixing_def)

lemma line_scan_malformed_then_line:
  "parseAlternativeFormat malformed_then_line = generateBasicAnalysis (js ''INTJ'')"
  by (simp add: parseAlternativeFormat_def malformed_then_line_def js_def is_upper_def
        word_leixing_def)

section \<open>The claims\<close>

subsection \<open>The analysis trigger\<close>

text \<open>
  Claim C1. For every session state and every reply of the assistant, \<^verbatim>\<open>shouldAnalyze\<close>
  returns true exactly when \<^verbatim>\<open>questionsAsked\<close> has reached
  \<^verbatim>\<open>minQuestionsBeforeAnalysis\<close>, which is 4, and the reply contains one of the
  \<^verbatim>\<open>analysisKeywords\<close> as a substring (code unit for code unit, hence case-sensitive)
  or the coverage heuristic reports at least 3 covered axes. In particular it returns
  false below the threshold, whatever the reply.
\<close>

theorem shouldAnalyze_iff:
  "(shouldAnalyze p s aiResponse \<longleftrightarrow>
      minQuestionsBeforeAnalysis AI_CONFIG \<le> questionsAsked (userInfo s) \<and>
      ((\<exists>keyword \<in> set (analysisKeywords AI_CONFIG). sublist keyword aiResponse) \<or>
       3 \<le> card (covered_axes (conversationText p s)))) \<and>
   minQuestionsBeforeAnalysis AI_CONFIG = 4 \<and>
   (questionsAsked (userInfo s) < minQuestionsBeforeAnalysis AI_CONFIG \<longrightarrow>
      \<not> shouldAnalyze p s aiResponse)"
  by (auto simp: shouldAnalyze_def Let_def array_some_iff str_includes_sublist
        hasCollectedEnoughDimensionInfo_def card_covered_axes AI_CONFIG_def)

text \<open>
  With four questions asked, a reply that holds fenxi (analysis) triggers the analysis;
  with three questions asked, the same reply does not.
\<close>

theorem shouldAnalyze_iff_witness:
  "shouldAnalyze unreachable (asked 4) (js ''OK: '' @ [0x5206, 0x6790]) \<and>
   questionsAsked (userInfo (asked 3)) < minQuestionsBeforeAnalysis AI_CONFIG \<and>
   \<not> shouldAnalyze unreachable (asked 3) (js ''OK: '' @ [0x5206, 0x6790])"
proof -
  have kw: "[0x5206, 0x6790] \<in> set (analysisKeywords AI_CONFIG)"
    by (simp add: AI_CONFIG_def)
  have "sublist [0x5206, 0x6790] (js ''OK: '' @ [0x5206, 0x6790 :: 16 word])"
    by simp
  with kw have intent:
    "\<exists>keyword \<in> set (analysisKeywords AI_CONFIG). sublist keyword (js ''OK: '' @ [0x5206, 0x6790])"
    by blast
  have q: "questionsAsked (userInfo (asked 4)) = 4" "questionsAsked (userInfo (asked 3)) = 3"
    by (simp_all add: asked_def)
  from intent q
    shouldAnalyze_iff [of unreachable "asked 4" "js ''OK: '' @ [0x5206, 0x6790]"]
    shouldAnalyze_iff [of unreachable "asked 3" "js ''OK: '' @ [0x5206, 0x6790]"]
  show ?thesis by simp
qed



subsection \<open>The result parser\<close>

text \<open>
  Claim C3 says that the parser goes on to the line scan whenever the strict tier
  fails, also when the text between the braces does not decode. The source says so too
  (the comment before the call of \<^verbatim>\<open>parseAlternativeFormat\<close>), but the exception of
  \<^verbatim>\<open>JSON.parse\<close> is caught by the handler of \<^verbatim>\<open>parseAnalysisResult\<close>, which returns
  \<^verbatim>\<open>null\<close> at once. On the answer \<^verbatim>\<open>{mbtiType: INTJ}\<close>, for every platform whose
  decoder rejects that text: the parser returns \<^verbatim>\<open>null\<close>, though the line scan, had
  it run, would have recovered INTJ.
\<close>

theorem parseAnalysisResult_skips_line_scan:
  "match_braces malformed_json = Some malformed_json \<and>
   JSON_parse (rejecting p malformed_json) malformed_json = None \<and>
   parseAnalysisResult (rejecting p malformed_json) malformed_json = JNull \<and>
   parseAlternativeFormat malformed_json = generateBasicAnalysis (js ''INTJ'')"
  using parseAnalysisResult_syntax_error [OF match_braces_malformed_json,
      of "rejecting p malformed_json"]
  by (simp add: rejecting_def line_scan_malformed_json match_braces_malformed_json)

text \<open>
  Claim C4 says that a text with no valid JSON object and a line that holds the word
  leixing and four capital letters yields the result synthesized from these letters. On
  the answer \<^verbatim>\<open>{bad}\<close> followed by the line \<^verbatim>\<open>leixing: INTJ\<close> the analysis step
  returns the default result of type ENFP instead, for the reason shown under C3: the
  text between the braces does not decode, and the line scan, which would have
  synthesized the result of type INTJ, is not run.
\<close>

theorem performMBTIAnalysis_loses_recoverable_type:
  "parseAnalysisResult (rejecting p (js ''{bad}'')) malformed_then_line = JNull \<and>
   fst (performMBTIAnalysis_resume (rejecting p (js ''{bad}'')) (Inr malformed_then_line) s) =
     Inr generateFallbackAnalysis \<and>
   get_property generateFallbackAnalysis (js ''mbtiType'') = Inr (JString (js ''ENFP'')) \<and>
   parseAlternativeFormat malformed_then_line = generateBasicAnalysis (js ''INTJ'') \<and>
   get_property (generateBasicAnalysis (js ''INTJ'')) (js ''mbtiType'') = Inr (JString (js ''INTJ''))"
proof -
  have null: "parseAnalysisResult (rejecting p (js ''{bad}'')) malformed_then_line = JNull"
    by (rule parseAnalysisResult_syntax_error [OF match_braces_malformed_then_line])
       (simp add: rejecting_def)
  then have "fst (performMBTIAnalysis_resume (rejecting p (js ''{bad}'')) (Inr malformed_then_line) s) =
      Inr generateFallbackAnalysis"
    by (intro resume_fallback) simp
  moreover have "get_property generateFallbackAnalysis (js ''mbtiType'') = Inr (JString (js ''ENFP''))"
    by (simp add: generateFallbackAnalysis_def js_def)
  ultimately show ?thesis
    using null by (simp add: line_scan_malformed_then_line generateBasicAnalysis_mbtiType)
qed

subsection \<open>The analysis step\<close>

text \<open>
  Claim C5. \<^verbatim>\<open>performMBTIAnalysis\<close> never leaves with an exception: it always returns
  a value. When the gateway call throws, or the parser returns \<^verbatim>\<open>null\<close> because all
  its tiers failed, the value is the default result of \<^verbatim>\<open>generateFallbackAnalysis\<close>.
  This holds for the function run as a whole and for its second part run on the answer
  of the gateway. The default result is the hardcoded object of the source, field for
  field: the type ENFP with confidence 0.6; for each of the four axes the pole (E, N, F,
  P), the confidence 0.6 and the generic reason of the source (EI: inferred from limited
  conversation that the user leans extraverted; SN: the user shows some intuitive traits;
  TF: decisions seem to weigh relationships and feelings more; JP: shows flexibility and
  openness); the generic description (a first analysis on limited conversation suggests
  ENFP, a longer conversation is advised); four strengths; one development area (more
  information is needed); one career suggestion (a more detailed conversation is advised).
\<close>

theorem performMBTIAnalysis_masks_failures:
  "(\<exists>result. fst (performMBTIAnalysis p s) = Inr result) \<and>
   (\<exists>result. fst (performMBTIAnalysis_resume p response s) = Inr result) \<and>
   ((\<exists>e. response = Inl e) \<or>
    (\<exists>content. response = Inr content \<and> parseAnalysisResult p content = JNull) \<longrightarrow>
    fst (performMBTIAnalysis_resume p response s) = Inr generateFallbackAnalysis) \<and>
   (\<not> isAnalyzing s \<and> chatModel s \<and>
    ((\<exists>e. invoke p (AnalysisRequest (conversationHistory s)) = Inl e) \<or>
     (\<exists>content. invoke p (AnalysisRequest (conversationHistory s)) = Inr content \<and>
        parseAnalysisResult p content = JNull)) \<longrightarrow>
    fst (performMBTIAnalysis p s) = Inr generateFallbackAnalysis) \<and>
   get_property generateFallbackAnalysis (js ''mbtiType'') = Inr (JString (js ''ENFP'')) \<and>
   get_property generateFallbackAnalysis (js ''confidence'') = Inr (JNumber 0.6) \<and>
   (\<exists>dims. get_property generateFallbackAnalysis (js ''dimensions'') = Inr dims \<and>
      dimension_poles dims =
        [(js ''EI'', JString (js ''E'')), (js ''SN'', JString (js ''N'')),
         (js ''TF'', JString (js ''F'')), (js ''JP'', JString (js ''P''))]) \<and>
   (\<exists>fields. generateFallbackAnalysis = JObject fields \<and>
      map fst fields =
        [js ''mbtiType'', js ''confidence'', js ''dimensions'', js ''description'',
         js ''strengths'', js ''developmentAreas'', js ''careerSuggestions'']) \<and>
   get_property generateFallbackAnalysis (js ''dimensions'') =
     Inr (JObject
         [(js ''EI'', JObject
             [(js ''type'', JString (js ''E'')), (js ''confidence'', JNumber 0.6),
              (js ''reason'', JString
                [0x57FA, 0x4E8E, 0x6709, 0x9650, 0x7684, 0x5BF9, 0x8BDD, 0x4FE1, 0x606F,
                 0x63A8, 0x6D4B, 0x7528, 0x6237, 0x504F, 0x5411, 0x5916, 0x5411])]),
          (js ''SN'', JObject
             [(js ''type'', JString (js ''N'')), (js ''confidence'', JNumber 0.6),
              (js ''reason'', JString
                [0x7528, 0x6237, 0x8868, 0x73B0, 0x51FA, 0x4E00, 0x5B9A, 0x7684, 0x76F4,
                 0x89C9, 0x578B, 0x7279, 0x5F81])]),
          (js ''TF'', JObject
             [(js ''type'', JString (js ''F'')), (js ''confidence'', JNumber 0.6),
              (js ''reason'', JString
                [0x51B3, 0x7B56, 0x65F6, 0x4F3C, 0x4E4E, 0x66F4, 0x91CD, 0x89C6, 0x4EBA,
                 0x9645, 0x5173, 0x7CFB, 0x548C, 0x60C5, 0x611F, 0x56E0, 0x7D20])]),
          (js ''JP'', JObject
             [(js ''type'', JString (js ''P'')), (js ''confidence'', JNumber 0.6),
              (js ''reason'', JString
                [0x8868, 0x73B0, 0x51FA, 0x8F83, 0x5F3A, 0x7684, 0x7075, 0x6D3B, 0x6027,
                 0x548C, 0x5F00, 0x653E, 0x6027])])]) \<and>
   get_property generateFallbackAnalysis (js ''description'') =
     Inr (JString
         [0x57FA, 0x4E8E, 0x6709, 0x9650, 0x7684, 0x5BF9, 0x8BDD, 0x4FE1, 0x606F, 0xFF0C,
          0x521D, 0x6B65, 0x5206, 0x6790, 0x663E, 0x793A, 0x7528, 0x6237, 0x53EF, 0x80FD,
          0x5C5E, 0x4E8E, 0x0045, 0x004E, 0x0046, 0x0050, 0x7C7B, 0x578B, 0x3002, 0x5EFA,
          0x8BAE, 0x8FDB, 0x884C, 0x66F4, 0x6DF1, 0x5165, 0x7684, 0x5BF9, 0x8BDD, 0x4EE5,
          0x83B7, 0x5F97, 0x66F4, 0x51C6, 0x786E, 0x7684, 0x5206, 0x6790, 0x7ED3, 0x679C,
          0x3002]) \<and>
   get_property generateFallbackAnalysis (js ''strengths'') =
     Inr (JArray
         [JString [0x5584, 0x4E8E, 0x4EA4, 0x6D41],
          JString [0x5BCC, 0x6709, 0x521B, 0x610F],
          JString [0x9002, 0x5E94, 0x6027, 0x5F3A],
          JString [0x5173, 0x5FC3, 0x4ED6, 0x4EBA]]) \<and>
   get_property generateFallbackAnalysis (js ''developmentAreas'') =
     Inr (JArray
         [JString [0x9700, 0x8981, 0x66F4, 0x591A, 0x4FE1, 0x606F, 0x6765, 0x51C6, 0x786E,
                   0x8BC4, 0x4F30, 0x53D1, 0x5C55, 0x9886, 0x57DF]]) \<and>
   get_property generateFallbackAnalysis (js ''careerSuggestions'') =
     Inr (JArray
         [JString [0x5EFA, 0x8BAE, 0x8FDB, 0x884C, 0x66F4, 0x8BE6, 0x7EC6, 0x7684, 0x5BF9,
                   0x8BDD, 0x4EE5, 0x63D0, 0x4F9B, 0x51C6, 0x786E, 0x7684, 0x804C, 0x4E1A,
                   0x5EFA, 0x8BAE]])"
proof -
  have seq: "\<not> isAnalyzing s \<and> chatModel s \<and>
    ((\<exists>e. invoke p (AnalysisRequest (conversationHistory s)) = Inl e) \<or>
     (\<exists>content. invoke p (AnalysisRequest (conversationHistory s)) = Inr content \<and>
        parseAnalysisResult p content = JNull)) \<longrightarrow>
    fst (performMBTIAnalysis p s) = Inr generateFallbackAnalysis"
    using resume_fallback
    by (simp add: performMBTIAnalysis_def performMBTIAnalysis_begin_def)
  have lit: "get_property generateFallbackAnalysis (js ''mbtiType'') = Inr (JString (js ''ENFP''))"
    "get_property generateFallbackAnalysis (js ''confidence'') = Inr (JNumber 0.6)"
    "\<exists>dims. get_property generateFallbackAnalysis (js ''dimensions'') = Inr dims \<and>
      dimension_poles dims =
        [(js ''EI'', JString (js ''E'')), (js ''SN'', JString (js ''N'')),
         (js ''TF'', JString (js ''F'')), (js ''JP'', JString (js ''P''))]"
    by (simp_all add: generateFallbackAnalysis_def js_def)
  have whole:
    "(\<exists>fields. generateFallbackAnalysis = JObject fields \<and>
        map fst fields =
          [js ''mbtiType'', js ''confidence'', js ''dimensions'', js ''description'',
           js ''strengths'', js ''developmentAreas'', js ''careerSuggestions''])"
    "get_property generateFallbackAnalysis (js ''dimensions'') =
       Inr (JObject
           [(js ''EI'', JObject
               [(js ''type'', JString (js ''E'')), (js ''confidence'', JNumber 0.6),
                (js ''reason'', JString
                  [0x57FA, 0x4E8E, 0x6709, 0x9650, 0x7684, 0x5BF9, 0x8BDD, 0x4FE1, 0x606F,
                   0x63A8, 0x6D4B, 0x7528, 0x6237, 0x504F, 0x5411, 0x5916, 0x5411])]),
            (js ''SN'', JObject
               [(js ''type'', JString (js ''N'')), (js ''confidence'', JNumber 0.6),
                (js ''reason'', JString
                  [0x7528, 0x6237, 0x8868, 0x73B0, 0x51FA, 0x4E00, 0x5B9A, 0x7684, 0x76F4,
                   0x89C9, 0x578B, 0x7279, 0x5F81])]),
            (js ''TF'', JObject
               [(js ''type'', JString (js ''F'')), (js ''confidence'', JNumber 0.6),
                (js ''reason'', JString
                  [0x51B3, 0x7B56, 0x65F6, 0x4F3C, 0x4E4E, 0x66F4, 0x91CD, 0x89C6, 0x4EBA,
                   0x9645, 0x5173, 0x7CFB, 0x548C, 0x60C5, 0x611F, 0x56E0, 0x7D20])]),
            (js ''JP'', JObject
               [(js ''type'', JString (js ''P'')), (js ''confidence'', JNumber 0.6),
                (js ''reason'', JString
                  [0x8868, 0x73B0, 0x51FA, 0x8F83, 0x5F3A, 0x7684, 0x7075, 0x6D3B, 0x6027,
                   0x548C, 0x5F00, 0x653E, 0x6027])])])"
    "get_property generateFallbackAnalysis (js ''description'') =
       Inr (JString
           [0x57FA, 0x4E8E, 0x6709, 0x9650, 0x7684, 0x5BF9, 0x8BDD, 0x4FE1, 0x606F, 0xFF0C,
            0x521D, 0x6B65, 0x5206, 0x6790, 0x663E, 0x793A, 0x7528, 0x6237, 0x53EF, 0x80FD,
            0x5C5E, 0x4E8E, 0x0045, 0x004E, 0x0046, 0x0050, 0x7C7B, 0x578B, 0x3002, 0x5EFA,
            0x8BAE, 0x8FDB, 0x884C, 0x66F4, 0x6DF1, 0x5165, 0x7684, 0x5BF9, 0x8BDD, 0x4EE5,
            0x83B7, 0x5F97, 0x66F4, 0x51C6, 0x786E, 0x7684, 0x5206, 0x6790, 0x7ED3, 0x679C,
            0x3002])"
    "get_property generateFallbackAnalysis (js ''strengths'') =
       Inr (JArray
           [JString [0x5584, 0x4E8E, 0x4EA4, 0x6D41],
            JString [0x5BCC, 0x6709, 0x521B, 0x610F],
            JString [0x9002, 0x5E94, 0x6027, 0x5F3A],
            JString [0x5173, 0x5FC3, 0x4ED6, 0x4EBA]])"
    "get_property generateFallbackAnalysis (js ''developmentAreas'') =
       Inr (JArray
           [JString [0x9700, 0x8981, 0x66F4, 0x591A, 0x4FE1, 0x606F, 0x6765, 0x51C6, 0x786E,
                     0x8BC4, 0x4F30, 0x53D1, 0x5C55, 0x9886, 0x57DF]])"
    "get_property generateFallbackAnalysis (js ''careerSuggestions'') =
       Inr (JArray
           [JString [0x5EFA, 0x8BAE, 0x8FDB, 0x884C, 0x66F4, 0x8BE6, 0x7EC6, 0x7684, 0x5BF9,
                     0x8BDD, 0x4EE5, 0x63D0, 0x4F9B, 0x51C6, 0x786E, 0x7684, 0x804C, 0x4E1A,
                     0x5EFA, 0x8BAE]])"
    by (simp_all add: generateFallbackAnalysis_def string_array_def js_def
          fallback_reason_EI_def fallback_reason_SN_def fallback_reason_TF_def
          fallback_reason_JP_def fallback_description_def fallback_strengths_def
          fallback_developmentAreas_def fallback_careerSuggestions_def)
  have masked:
    "(\<exists>result. fst (performMBTIAnalysis p s) = Inr result) \<and>
     (\<exists>result. fst (performMBTIAnalysis_resume p response s) = Inr result) \<and>
     ((\<exists>e. response = Inl e) \<or>
      (\<exists>content. response = Inr content \<and> parseAnalysisResult p content = JNull) \<longrightarrow>
      fst (performMBTIAnalysis_resume p response s) = Inr generateFallbackAnalysis)"
    using performMBTIAnalysis_returns [of p s] resume_returns [of p response s]
      resume_fallback [of response p s]
    by blast
  from masked seq lit whole show ?thesis
    by (intro conjI) blast+
qed

text \<open>
  The gateway fails: the default result. The gateway answers \<^verbatim>\<open>no result\<close>, in which
  no tier finds anything: the default result.
\<close>

theorem performMBTIAnalysis_masks_failures_witness:
  "\<not> isAnalyzing fresh \<and> chatModel fresh \<and>
   invoke unreachable (AnalysisRequest (conversationHistory fresh)) = gateway_timeout \<and>
   fst (performMBTIAnalysis unreachable fresh) = Inr generateFallbackAnalysis \<and>
   parseAnalysisResult unreachable (js ''no result'') = JNull \<and>
   fst (performMBTIAnalysis_resume unreachable (Inr (js ''no result'')) fresh) =
     Inr generateFallbackAnalysis"
proof -
  have parse: "parseAnalysisResult unreachable (js ''no result'') = JNull"
    by (simp add: parseAnalysisResult_def parseAnalysisResult_try_def match_braces_def
          parseAlternativeFormat_def js_def word_leixing_def)
  have call: "invoke unreachable (AnalysisRequest (conversationHistory fresh)) = gateway_timeout"
    by (simp add: unreachable_def gateway_timeout_def)
  have st: "\<not> isAnalyzing fresh" "chatModel fresh"
    by (simp_all add: fresh_def)
  from parse call st
    performMBTIAnalysis_masks_failures [of unreachable fresh "Inr (js ''no result'')"]
  show ?thesis
    by (simp add: gateway_timeout_def)
qed

text \<open>
  Claim C6, amended. An invocation of the analysis step while \<^verbatim>\<open>isAnalyzing\<close> is set
  returns \<^verbatim>\<open>null\<close> at once, issues no gateway call and changes nothing; the flag is
  clear when an analysis in progress has resolved. So, in every run of the module in
  which \<^verbatim>\<open>resetConversation\<close> is not called while an analysis call is in flight, at
  most one analysis call is in flight at any time.
\<close>

theorem analysis_guard_without_reset:
  "(isAnalyzing s \<longrightarrow> performMBTIAnalysis_begin s = (Inl JNull, s)) \<and>
   (isAnalyzing (module_state r) \<longrightarrow> step InvokeAnalysis r = r) \<and>
   \<not> isAnalyzing (snd (performMBTIAnalysis_resume p response s)) \<and>
   (resets_when_idle es (start_of_run s) \<longrightarrow>
      length (in_flight (steps es (start_of_run s))) \<le> 1)"
proof -
  have "resets_when_idle es (start_of_run s) \<longrightarrow>
      length (in_flight (steps es (start_of_run s))) \<le> 1"
    using guard_invariant_steps [OF guard_invariant_start] guard_invariant_bound by blast
  then show ?thesis
    by (simp add: performMBTIAnalysis_begin_def resume_clears_flag)
qed

text \<open>
  In the session \<open>analysing\<close> the flag is set: an invocation returns \<^verbatim>\<open>null\<close> and
  changes nothing. In a run, a second invocation right after the first changes nothing.
  Two invocations in a row issue one call; after its answer and a reset, two more
  invocations issue one call again.
\<close>

theorem analysis_guard_without_reset_witness:
  "isAnalyzing analysing \<and> performMBTIAnalysis_begin analysing = (Inl JNull, analysing) \<and>
   isAnalyzing (module_state (step InvokeAnalysis (start_of_run analysing))) \<and>
   step InvokeAnalysis (step InvokeAnalysis (start_of_run analysing)) =
     step InvokeAnalysis (start_of_run analysing) \<and>
   resets_when_idle reset_after_analysis (start_of_run analysing) \<and>
   in_flight (steps reset_after_analysis (start_of_run analysing)) = [1] \<and>
   length (in_flight (steps reset_after_analysis (start_of_run analysing))) \<le> 1"
proof -
  have a: "isAnalyzing analysing"
    by (simp add: analysing_def)
  have b: "isAnalyzing (module_state (step InvokeAnalysis (start_of_run analysing)))"
    by (simp add: start_of_run_def analysing_def resetConversation_def
          performMBTIAnalysis_begin_def issue_call_def)
  have idle: "resets_when_idle reset_after_analysis (start_of_run analysing)"
    by (simp add: reset_after_analysis_def start_of_run_def analysing_def
          resetConversation_def performMBTIAnalysis_begin_def performMBTIAnalysis_resume_def
          performMBTIAnalysis_try_def gateway_timeout_def issue_call_def)
  have fl: "in_flight (steps reset_after_analysis (start_of_run analysing)) = [1]"
    by (simp add: reset_after_analysis_def start_of_run_def analysing_def
          resetConversation_def performMBTIAnalysis_begin_def performMBTIAnalysis_resume_def
          performMBTIAnalysis_try_def gateway_timeout_def issue_call_def)
  from a b idle fl
    analysis_guard_without_reset [of analysing "step InvokeAnalysis (start_of_run analysing)"
      unreachable gateway_timeout reset_after_analysis]
  show ?thesis by simp
qed

text \<open>
  The claim as it stands, that two analysis calls are never in flight at once, fails
  when \<^verbatim>\<open>resetConversation\<close>, which clears the flag, runs during an analysis: an
  invocation issues call 0, a reset follows, the next invocation issues call 1, the
  answer to call 0 clears the flag again, and a third invocation issues call 2 while
  call 1 is still in flight. Both were issued after the reset. The same happens when the
  analysis step is invoked by \<^verbatim>\<open>sendMessage\<close>, on the fourth reply of a session and
  on every later reply that holds a keyword.
\<close>

theorem overlapping_analysis_calls:
  "in_flight (steps reset_during_analysis (start_of_run fresh)) = [1, 2] \<and>
   in_flight_of_session (steps reset_during_analysis (start_of_run fresh)) = [1, 2] \<and>
   in_flight (steps reset_during_analysis_by_messages (start_of_run fresh)) = [1, 2] \<and>
   in_flight_of_session (steps reset_during_analysis_by_messages (start_of_run fresh)) = [1, 2] \<and>
   \<not> length (in_flight (steps reset_during_analysis_by_messages (start_of_run fresh))) \<le> 1"
proof -
  have direct: "steps reset_during_analysis (start_of_run fresh) =
      \<lparr>module_state = fresh\<lparr>isAnalyzing := True\<rparr>, chats_in_flight = 0, in_flight = [1, 2],
       calls_issued = 3, calls_at_reset = 1\<rparr>"
    by (simp add: reset_during_analysis_def start_of_run_def fresh_def
          resetConversation_def performMBTIAnalysis_begin_def performMBTIAnalysis_resume_def
          performMBTIAnalysis_try_def gateway_timeout_def issue_call_def)
  have by_messages:
    "in_flight (steps reset_during_analysis_by_messages (start_of_run fresh)) = [1, 2] \<and>
     calls_at_reset (steps reset_during_analysis_by_messages (start_of_run fresh)) = 1"
    by (simp add: reset_during_analysis_by_messages_def four_exchanges_def exchange_def
          start_of_run_def fresh_def resetConversation_def performMBTIAnalysis_begin_def
          performMBTIAnalysis_resume_def performMBTIAnalysis_try_def gateway_timeout_def
          issue_call_def sendMessage_begin_def sendMessage_reply_def isModelReady_def
          push_message_def shouldAnalyze_def AI_CONFIG_def Let_def
          hasCollectedEnoughDimensionInfo_def conversationText_def answering_def
          toLowerCase_ascii_def dimensionKeywords_def js_def)
  from direct by_messages show ?thesis
    by (simp add: in_flight_of_session_def)
qed

subsection \<open>The session state\<close>

text \<open>
  Claim C7, amended. \<^verbatim>\<open>questionsAsked\<close> counts the assistant replies that
  \<^verbatim>\<open>sendMessage\<close> appends, not the welcome message that \<^verbatim>\<open>getWelcomeMessage\<close>
  appends: after any calls of the two functions in a session, the number of assistant
  turns in the history is \<^verbatim>\<open>questionsAsked\<close> plus the number of welcome messages
  appended.
\<close>

theorem questionsAsked_counts_sendMessage_replies:
  "assistant_turns (run_calls cs (resetConversation s)) =
     questionsAsked (userInfo (run_calls cs (resetConversation s))) +
     welcome_turns cs (resetConversation s)"
  using run_calls_turns [of cs "resetConversation s"]
  by (simp add: resetConversation_def assistant_turns_def)

text \<open>
  A session of three calls: the welcome message arrives, a message is answered, and a
  second message meets a gateway that fails. The history holds two assistant turns, one of
  them the welcome message, and one question is counted.
\<close>

theorem questionsAsked_counts_sendMessage_replies_witness:
  "assistant_turns (run_calls welcome_and_two_messages (resetConversation analysing)) = 2 \<and>
   questionsAsked (userInfo (run_calls welcome_and_two_messages (resetConversation analysing))) = 1 \<and>
   welcome_turns welcome_and_two_messages (resetConversation analysing) = 1"
proof -
  have q: "questionsAsked (userInfo (run_calls welcome_and_two_messages
      (resetConversation analysing))) = 1"
    by (simp add: welcome_and_two_messages_def resetConversation_def analysing_def
          getWelcomeMessage_def sendMessage_def isModelReady_def answering_def unreachable_def
          push_message_def shouldAnalyze_def AI_CONFIG_def Let_def)
  have w: "welcome_turns welcome_and_two_messages (resetConversation analysing) = 1"
    by (simp add: welcome_and_two_messages_def resetConversation_def analysing_def
          getWelcomeMessage_def sendMessage_def isModelReady_def answering_def unreachable_def
          push_message_def shouldAnalyze_def AI_CONFIG_def Let_def)
  from q w questionsAsked_counts_sendMessage_replies [of welcome_and_two_messages analysing]
  show ?thesis by simp
qed

text \<open>
  The claim as it stands, that \<^verbatim>\<open>questionsAsked\<close> equals the number of assistant
  replies appended, the welcome message included, fails as soon as the welcome message
  arrives: one assistant turn, no question counted.
\<close>

theorem welcome_message_not_counted:
  "assistant_turns (run_calls [GetWelcomeMessage (answering (js ''Hello''))]
      (resetConversation fresh)) = 1 \<and>
   questionsAsked (userInfo (run_calls [GetWelcomeMessage (answering (js ''Hello''))]
      (resetConversation fresh))) = 0"
  by (simp add: resetConversation_def fresh_def getWelcomeMessage_def isModelReady_def
        answering_def push_message_def assistant_turns_def)

text \<open>
  Claim C8. After \<^verbatim>\<open>resetConversation\<close>, whatever the state before,
  \<^verbatim>\<open>getConversationHistory\<close> returns the empty sequence, \<^verbatim>\<open>getUserInfo\<close> shows
  \<^verbatim>\<open>questionsAsked\<close> 0 and \<^verbatim>\<open>mbtiType\<close> \<^verbatim>\<open>null\<close>, and \<^verbatim>\<open>isAnalyzing\<close> is clear.
\<close>

theorem resetConversation_clears:
  "getConversationHistory (resetConversation s) = [] \<and>
   questionsAsked (getUserInfo (resetConversation s)) = 0 \<and>
   mbtiType (getUserInfo (resetConversation s)) = JNull \<and>
   \<not> isAnalyzing (resetConversation s)"
  by (simp add: resetConversation_def getConversationHistory_def getUserInfo_def)

text \<open>
  The session \<open>analysing\<close> has two turns, five questions asked, the type INTJ and the
  flag set; its reset has none of them.
\<close>

theorem resetConversation_clears_witness:
  "getConversationHistory analysing \<noteq> [] \<and>
   questionsAsked (getUserInfo analysing) = 5 \<and> isAnalyzing analysing \<and>
   getConversationHistory (resetConversation analysing) = [] \<and>
   questionsAsked (getUserInfo (resetConversation analysing)) = 0 \<and>
   mbtiType (getUserInfo (resetConversation analysing)) = JNull \<and>
   \<not> isAnalyzing (resetConversation analysing)"
  using resetConversation_clears [of analysing]
  by (simp add: analysing_def getConversationHistory_def getUserInfo_def)




subsection \<open>The synthesized result\<close>

text \<open>
  Claim C10. For every type of four code units, the \<^verbatim>\<open>dimensions\<close> object that
  \<^verbatim>\<open>generateDimensionsAnalysis\<close> builds has exactly the axes EI, SN, TF and JP, in this
  order, and the pole of each axis is the code unit of the type at the position of the
  axis; \<^verbatim>\<open>generateBasicAnalysis\<close> returns this object under \<^verbatim>\<open>dimensions\<close> beside the
  type itself under \<^verbatim>\<open>mbtiType\<close>, so that the two agree.
\<close>

theorem generateDimensionsAnalysis_poles:
  assumes "length t = 4"
  shows "dimension_poles (generateDimensionsAnalysis t) =
           [(js ''EI'', JString [t ! 0]), (js ''SN'', JString [t ! 1]),
            (js ''TF'', JString [t ! 2]), (js ''JP'', JString [t ! 3])] \<and>
         get_property (generateBasicAnalysis t) (js ''dimensions'') =
           Inr (generateDimensionsAnalysis t) \<and>
         get_property (generateBasicAnalysis t) (js ''mbtiType'') = Inr (JString t)"
  using assms
  by (simp add: generateDimensionsAnalysis_def generateBasicAnalysis_def chars_at_def js_def)

text \<open>The type INTJ: the poles are I, N, T and J.\<close>

theorem generateDimensionsAnalysis_poles_witness:
  "length (js ''INTJ'') = 4 \<and>
   dimension_poles (generateDimensionsAnalysis (js ''INTJ'')) =
     [(js ''EI'', JString (js ''I'')), (js ''SN'', JString (js ''N'')),
      (js ''TF'', JString (js ''T'')), (js ''JP'', JString (js ''J''))]"
proof -
  have len: "length (js ''INTJ'') = 4"
    by (simp add: js_def)
  from generateDimensionsAnalysis_poles [OF len] len show ?thesis
    by (simp add: js_def)
qed

end
